theory Spec2Isabelle
  imports Complex_Main "HOL-Library.Multiset"
begin

section \<open>VV10 non-local correlation: coefficients and kernel\<close>

text \<open>
  The notebook computes with NumPy double-precision (binary64) arrays. The embedding of
  \<open>compute_vv10\<close> takes the exact-arithmetic reading of every operation: a float is a
  \<open>real\<close>, \<open>np.sqrt\<close> is \<open>sqrt\<close>, \<open>**\<close> with the exponents 2.0, 4.0 and 5.0 is the power
  with that natural exponent, and \<open>**\<close> with a fractional exponent is \<open>powr\<close>. The reals
  have no \<open>inf\<close> and no \<open>nan\<close> (and \<open>x / 0 = 0\<close> in HOL), and they neither underflow nor
  overflow. So the real-valued definitions describe the code, up to rounding, on inputs
  of moderate size only (the predicates \<open>moderate\<close>, \<open>limited\<close> and \<open>regular_vpot\<close> below):
  there every denominator that the code computes is a positive number far from the
  underflow and the overflow threshold of binary64. The theorems about values are stated
  for such inputs. What the code does outside, at zero density and where a product
  underflows, is described by the type \<open>fp\<close> below, which has \<open>inf\<close>, \<open>-inf\<close>, \<open>nan\<close>, underflow
  and overflow.
\<close>

type_synonym vec = "real list"
type_synonym mat = "real list list"

definition coef_C :: real where
  "coef_C = 0.0093"

definition coef_B :: real where
  "coef_B = 5.9"

definition coef_beta :: real where
  "coef_beta = 1.0 / 32.0 * (3.0 / (coef_B powr 2.0)) powr (3.0 / 4.0)"

text \<open>
  \<open>compute_vv10_kernel\<close> is written with NumPy universal functions only, so on arrays it
  acts point by point. \<open>compute_vv10_kernel\<close> below is the function at one point and
  \<open>compute_vv10_kernel_arr\<close> its application to the arrays of a block.
\<close>

definition compute_vv10_kernel :: "real \<Rightarrow> real \<Rightarrow> real \<times> real" where
  "compute_vv10_kernel rho gamma =
     (let kappa_pref = coef_B * (1.5 * pi) / ((9.0 * pi) powr (1.0 / 6.0));
          Wp = (4.0 / 3.0) * pi * rho;
          Wg = coef_C * ((gamma / (rho * rho)) ^ 2);
          W0 = sqrt (Wg + Wp);
          kappa = rho powr (1.0 / 6.0) * kappa_pref
      in (W0, kappa))"

definition compute_vv10_kernel_arr :: "vec \<Rightarrow> vec \<Rightarrow> vec \<times> vec" where
  "compute_vv10_kernel_arr rho gamma =
     (map2 (\<lambda>r g. fst (compute_vv10_kernel r g)) rho gamma,
      map2 (\<lambda>r g. snd (compute_vv10_kernel r g)) rho gamma)"


section \<open>NumPy array operations\<close>

text \<open>
  One-dimensional arrays are lists and two-dimensional arrays are lists of rows. The
  element-wise operations below are used on arrays of equal shape only (every array of a
  block has one entry per grid point), where \<open>map2\<close> is NumPy's element-wise operation.
\<close>

definition vadd :: "vec \<Rightarrow> vec \<Rightarrow> vec" where
  "vadd a b = map2 (+) a b"

definition vmul :: "vec \<Rightarrow> vec \<Rightarrow> vec" where
  "vmul a b = map2 (*) a b"

definition vdiv :: "vec \<Rightarrow> vec \<Rightarrow> vec" where
  "vdiv a b = map2 (/) a b"

definition smul :: "real \<Rightarrow> vec \<Rightarrow> vec" where
  "smul c a = map (\<lambda>v. c * v) a"

definition sadd :: "real \<Rightarrow> vec \<Rightarrow> vec" where
  "sadd c a = map (\<lambda>v. c + v) a"

definition ssub :: "real \<Rightarrow> vec \<Rightarrow> vec" where
  "ssub c a = map (\<lambda>v. c - v) a"

definition sdiv :: "real \<Rightarrow> vec \<Rightarrow> vec" where
  "sdiv c a = map (\<lambda>v. c / v) a"

definition vpow :: "vec \<Rightarrow> nat \<Rightarrow> vec" where
  "vpow a n = map (\<lambda>v. v ^ n) a"

definition vneg :: "vec \<Rightarrow> vec" where
  "vneg a = map uminus a"

definition zeros_like :: "vec \<Rightarrow> vec" where
  "zeros_like a = replicate (length a) 0"

definition zeros :: "nat \<Rightarrow> nat \<Rightarrow> mat" where
  "zeros n m = replicate n (replicate m 0)"

definition vdot :: "vec \<Rightarrow> vec \<Rightarrow> real" where
  "vdot a b = sum_list (map2 (*) a b)"

definition madd :: "mat \<Rightarrow> mat \<Rightarrow> mat" where
  "madd M N = map2 (map2 (+)) M N"

definition mmul :: "mat \<Rightarrow> mat \<Rightarrow> mat" where
  "mmul M N = map2 (map2 (*)) M N"

definition mmap :: "(real \<Rightarrow> real) \<Rightarrow> mat \<Rightarrow> mat" where
  "mmap f M = map (map f) M"

text \<open>\<open>sum_axis1 M\<close> is \<open>np.sum(M, axis=1)\<close>: the sum of every row.\<close>

definition sum_axis1 :: "mat \<Rightarrow> vec" where
  "sum_axis1 M = map sum_list M"

text \<open>
  Broadcasting. \<open>outer f a b\<close> is \<open>f(a[:, None], b)\<close>, \<open>rowwise f a M\<close> is
  \<open>f(a[:, None], M)\<close> (entry \<open>i\<close> of \<open>a\<close> meets row \<open>i\<close> of \<open>M\<close>), and \<open>colwise f r M\<close> is
  \<open>f(r, M)\<close> (entry \<open>j\<close> of \<open>r\<close> meets column \<open>j\<close> of \<open>M\<close>).
\<close>

definition outer :: "(real \<Rightarrow> real \<Rightarrow> real) \<Rightarrow> vec \<Rightarrow> vec \<Rightarrow> mat" where
  "outer f a b = map (\<lambda>ai. map (\<lambda>bj. f ai bj) b) a"

definition rowwise :: "(real \<Rightarrow> real \<Rightarrow> real) \<Rightarrow> vec \<Rightarrow> mat \<Rightarrow> mat" where
  "rowwise f a M = map2 (\<lambda>ai row. map (\<lambda>v. f ai v) row) a M"

definition colwise :: "(real \<Rightarrow> real \<Rightarrow> real) \<Rightarrow> vec \<Rightarrow> mat \<Rightarrow> mat" where
  "colwise f r M = map (\<lambda>row. map2 f r row) M"

text \<open>
  \<open>mT n M\<close> is \<open>M.T\<close> for a matrix of \<open>n\<close> columns. A NumPy array carries its shape; a
  list of rows does not when it has no row, so the number of columns is passed.
\<close>

definition mT :: "nat \<Rightarrow> mat \<Rightarrow> mat" where
  "mT n M = map (\<lambda>a. map (\<lambda>row. row ! a) M) [0..<n]"

text \<open>
  \<open>np.einsum('pb,p,p,pa->ab', A, u, v, B)\<close> for \<open>n\<close> basis functions:
  entry \<open>(a, b)\<close> is the sum over the points \<open>p\<close> of \<open>A[p,b] * u[p] * v[p] * B[p,a]\<close>.
\<close>

definition einsum_pb_p_p_pa :: "nat \<Rightarrow> mat \<Rightarrow> vec \<Rightarrow> vec \<Rightarrow> mat \<Rightarrow> mat" where
  "einsum_pb_p_p_pa n A u v B =
     map (\<lambda>a. map (\<lambda>b. \<Sum>p\<leftarrow>[0..<length u]. A ! p ! b * u ! p * v ! p * B ! p ! a) [0..<n])
       [0..<n]"

section \<open>Indexed update of the potential matrix\<close>

datatype error = IndexError

text \<open>
  An index \<open>i\<close> into an axis of length \<open>n\<close> is valid from \<open>-n\<close> to \<open>n - 1\<close>; a negative
  one counts from the end. NumPy checks every index of an index array before it reads
  or writes anything. The index array is \<open>lpos = np.array(functions_local_to_global())\<close>:
  from a list of integers it is an integer array, but from the empty list it is an array
  of dtype float64, and indexing with a float array raises \<open>IndexError\<close>.
\<close>

definition index_ok :: "nat \<Rightarrow> int \<Rightarrow> bool" where
  "index_ok n i = (- int n \<le> i \<and> i < int n)"

definition norm_index :: "nat \<Rightarrow> int \<Rightarrow> nat" where
  "norm_index n i = nat (if i < 0 then i + int n else i)"

definition norm_indices :: "nat \<Rightarrow> int list \<Rightarrow> error + nat list" where
  "norm_indices n idx =
     (if idx = [] then Inl IndexError
      else if list_all (index_ok n) idx then Inr (map (norm_index n) idx)
      else Inl IndexError)"

text \<open>
  \<open>getitem M idx\<close> is \<open>M[(idx[:, None], idx)]\<close>, a fresh array whose entry \<open>(a, b)\<close> is
  \<open>M[idx[a], idx[b]]\<close>. \<open>setitem M idx T\<close> is \<open>M[(idx[:, None], idx)] = T\<close>: entry
  \<open>(a, b)\<close> of \<open>T\<close> is stored at \<open>(idx[a], idx[b])\<close>, row by row, so that where an index
  repeats the store made last remains.
\<close>

definition getitem :: "mat \<Rightarrow> nat list \<Rightarrow> mat" where
  "getitem M idx = map (\<lambda>p. map (\<lambda>q. M ! p ! q) idx) idx"

definition setitem_row :: "vec \<Rightarrow> nat list \<Rightarrow> vec \<Rightarrow> vec" where
  "setitem_row row idx vals = fold (\<lambda>b r. r[idx ! b := vals ! b]) [0..<length idx] row"

definition setitem :: "mat \<Rightarrow> nat list \<Rightarrow> mat \<Rightarrow> mat" where
  "setitem M idx T =
     fold (\<lambda>a M'. M'[idx ! a := setitem_row (M' ! (idx ! a)) idx (T ! a)]) [0..<length idx] M"

text \<open>
  \<open>iadd_at M lpos X\<close> is the statement \<open>M[(lpos[:, None], lpos)] += X\<close> on a square
  matrix \<open>M\<close>: Python reads the indexed entries into a temporary, adds \<open>X\<close> to it and
  stores the temporary back at the same indices.
\<close>

definition iadd_at :: "mat \<Rightarrow> int list \<Rightarrow> mat \<Rightarrow> error + mat" where
  "iadd_at M lpos X =
     (case norm_indices (length M) lpos of
        Inl e \<Rightarrow> Inl e
      | Inr idx \<Rightarrow> Inr (setitem M idx (madd (getitem M idx) X)))"

section \<open>Grid blocks and the values computed on them\<close>

text \<open>
  \<open>compute_vv10\<close> receives the density matrix \<open>D\<close> and the potential object \<open>Vpot\<close> of
  Psi4. Psi4 is not part of the notebook, so what its accessors return is the input of
  the model. A block of \<open>Vpot\<close> is a list of grid points and the local-to-global index
  map of its basis functions. At each point Psi4 gives the quadrature weight and the
  coordinates (\<open>w()\<close>, \<open>x()\<close>, \<open>y()\<close>, \<open>z()\<close>), the point values that
  \<open>points_func.compute_points\<close> fills in for the current density (\<open>RHO_A\<close>, \<open>GAMMA_AA\<close>,
  \<open>RHO_AX\<close>, \<open>RHO_AY\<close>, \<open>RHO_AZ\<close>), the basis values (\<open>PHI\<close>, \<open>PHI_X\<close>, \<open>PHI_Y\<close>, \<open>PHI_Z\<close>,
  one value for each local basis function), and the values of the semilocal functional
  that \<open>superfunc.compute_functional\<close> returns (\<open>V\<close>, \<open>V_RHO_A\<close>, \<open>V_GAMMA_AA\<close>). One
  record for each point makes all arrays of a block equally long, as Psi4 delivers them.
\<close>

record point =
  pt_w :: real
  pt_x :: real
  pt_y :: real
  pt_z :: real
  pt_RHO_A :: real
  pt_GAMMA_AA :: real
  pt_RHO_AX :: real
  pt_RHO_AY :: real
  pt_RHO_AZ :: real
  pt_PHI :: "nat \<Rightarrow> real"
  pt_PHI_X :: "nat \<Rightarrow> real"
  pt_PHI_Y :: "nat \<Rightarrow> real"
  pt_PHI_Z :: "nat \<Rightarrow> real"
  pt_V :: real
  pt_V_RHO_A :: real
  pt_V_GAMMA_AA :: real

record block =
  points :: "point list"
  functions_local_to_global :: "int list"

definition grid_w :: "block \<Rightarrow> vec" where
  "grid_w g = map pt_w (points g)"

definition grid_x :: "block \<Rightarrow> vec" where
  "grid_x g = map pt_x (points g)"

definition grid_y :: "block \<Rightarrow> vec" where
  "grid_y g = map pt_y (points g)"

definition grid_z :: "block \<Rightarrow> vec" where
  "grid_z g = map pt_z (points g)"

text \<open>
  \<open>points_func\<close> holds the values of the block it computed last. Every read in
  \<open>compute_vv10\<close> copies (\<open>np.array\<close>), so a later \<open>compute_points\<close> does not change
  what was read before. The state of \<open>points_func\<close> is the block given to the last
  \<open>compute_points\<close>; \<open>point_values\<close> and \<open>basis_values\<close> read from it. The buffers of
  Psi4 may be longer than the block; the slices \<open>[:npoints]\<close> and
  \<open>[:npoints, :nfunctions]\<close> keep the entries of the block.
\<close>

type_synonym points_func = block

definition compute_points :: "block \<Rightarrow> points_func" where
  "compute_points g = g"

definition point_values :: "points_func \<Rightarrow> (point \<Rightarrow> real) \<Rightarrow> vec" where
  "point_values pf key = map key (points pf)"

definition basis_values :: "points_func \<Rightarrow> (point \<Rightarrow> nat \<Rightarrow> real) \<Rightarrow> (nat \<Rightarrow> real) list" where
  "basis_values pf key = map key (points pf)"

definition compute_functional :: "points_func \<Rightarrow> (point \<Rightarrow> real) \<Rightarrow> vec" where
  "compute_functional pf key = map key (points pf)"

text \<open>\<open>slice2 n m B\<close> is \<open>np.array(B)[:n, :m]\<close>.\<close>

definition slice2 :: "nat \<Rightarrow> nat \<Rightarrow> (nat \<Rightarrow> real) list \<Rightarrow> mat" where
  "slice2 n m B = map (\<lambda>row. map row [0..<m]) (take n B)"

section \<open>The pair kernel of an outer and an inner block\<close>

text \<open>The distance matrix: \<open>R2 = (l_x[:, None] - r_x) ** 2\<close>, then \<open>+=\<close> for y and z.\<close>

definition build_R2 :: "vec \<Rightarrow> vec \<Rightarrow> vec \<Rightarrow> vec \<Rightarrow> vec \<Rightarrow> vec \<Rightarrow> mat" where
  "build_R2 l_x l_y l_z r_x r_y r_z =
     madd (madd (mmap (\<lambda>v. v ^ 2) (outer (-) l_x r_x))
                (mmap (\<lambda>v. v ^ 2) (outer (-) l_y r_y)))
          (mmap (\<lambda>v. v ^ 2) (outer (-) l_z r_z))"

text \<open>\<open>g = l_W0[:, None] * R2 + l_kappa[:, None]\<close> and \<open>gp = r_W0 * R2 + r_kappa\<close>.\<close>

definition build_g :: "vec \<Rightarrow> vec \<Rightarrow> mat \<Rightarrow> mat" where
  "build_g l_W0 l_kappa R2 = rowwise (\<lambda>k v. v + k) l_kappa (rowwise (\<lambda>w v. w * v) l_W0 R2)"

definition build_gp :: "vec \<Rightarrow> vec \<Rightarrow> mat \<Rightarrow> mat" where
  "build_gp r_W0 r_kappa R2 = colwise (\<lambda>k v. v + k) r_kappa (colwise (\<lambda>w v. w * v) r_W0 R2)"

text \<open>\<open>F_kernal = -1.5 * r_w * r_rho / (g * gp * (g + gp))\<close>.\<close>

definition build_F_kernal :: "vec \<Rightarrow> vec \<Rightarrow> mat \<Rightarrow> mat \<Rightarrow> mat" where
  "build_F_kernal r_w r_rho g gp =
     colwise (/) (vmul (smul (- 1.5) r_w) r_rho) (mmul (mmul g gp) (madd g gp))"

text \<open>\<open>F_U = F_kernal * ((1.0 / g) + (1.0 / (g + gp)))\<close> and \<open>F_W = F_U * R2\<close>.\<close>

definition build_F_U :: "mat \<Rightarrow> mat \<Rightarrow> mat \<Rightarrow> mat" where
  "build_F_U F_kernal g gp =
     mmul F_kernal (madd (mmap (\<lambda>v. 1.0 / v) g) (mmap (\<lambda>v. 1.0 / v) (madd g gp)))"

definition build_F_W :: "mat \<Rightarrow> mat \<Rightarrow> mat" where
  "build_F_W F_U R2 = mmul F_U R2"

text \<open>
  The matrices that one pass of the loop over the inner blocks builds, for the outer
  block whose coordinates and kernel values are \<open>l_x\<close>, \<open>l_y\<close>, \<open>l_z\<close>, \<open>l_W0\<close>,
  \<open>l_kappa\<close> and the inner block \<open>r_grid\<close>.
\<close>

record pair_mats =
  pm_R2 :: mat
  pm_g :: mat
  pm_gp :: mat
  pm_F_kernal :: mat
  pm_F_U :: mat
  pm_F_W :: mat

definition pair_kernel :: "vec \<Rightarrow> vec \<Rightarrow> vec \<Rightarrow> vec \<Rightarrow> vec \<Rightarrow> block \<Rightarrow> pair_mats" where
  "pair_kernel l_x l_y l_z l_W0 l_kappa r_grid =
     (let r_w = grid_w r_grid;
          r_x = grid_x r_grid;
          r_y = grid_y r_grid;
          r_z = grid_z r_grid;
          r_npoints = length r_w;
          pf = compute_points r_grid;
          r_rho = take r_npoints (point_values pf pt_RHO_A);
          r_gamma = take r_npoints (point_values pf pt_GAMMA_AA);
          (r_W0, r_kappa) = compute_vv10_kernel_arr r_rho r_gamma;
          R2 = build_R2 l_x l_y l_z r_x r_y r_z;
          g = build_g l_W0 l_kappa R2;
          gp = build_gp r_W0 r_kappa R2;
          F_kernal = build_F_kernal r_w r_rho g gp;
          F_U = build_F_U F_kernal g gp;
          F_W = build_F_W F_U R2
      in \<lparr>pm_R2 = R2, pm_g = g, pm_gp = gp, pm_F_kernal = F_kernal, pm_F_U = F_U,
          pm_F_W = F_W\<rparr>)"

text \<open>
  The body of the loop over the inner blocks: it adds the row sums of the pair matrices
  to the accumulators \<open>phi_kernel\<close>, \<open>phi_U\<close>, \<open>phi_W\<close> of the outer block.
\<close>

definition inner_body ::
  "block list \<Rightarrow> vec \<Rightarrow> vec \<Rightarrow> vec \<Rightarrow> vec \<Rightarrow> vec \<Rightarrow> nat \<Rightarrow> vec \<times> vec \<times> vec \<Rightarrow> vec \<times> vec \<times> vec"
where
  "inner_body Vpot l_x l_y l_z l_W0 l_kappa r_block acc =
     (case acc of (phi_kernel, phi_U, phi_W) \<Rightarrow>
        let r_grid = Vpot ! r_block;
            pm = pair_kernel l_x l_y l_z l_W0 l_kappa r_grid
        in (vadd phi_kernel (sum_axis1 (pm_F_kernal pm)),
            vadd phi_U (vneg (sum_axis1 (pm_F_U pm))),
            vadd phi_W (vneg (sum_axis1 (pm_F_W pm)))))"

section \<open>Derivatives, energy and perturbed potentials of an outer block\<close>

definition build_kappa_dn :: "vec \<Rightarrow> vec \<Rightarrow> vec" where
  "build_kappa_dn l_kappa l_rho = vdiv l_kappa (smul 6.0 l_rho)"

definition build_w0_dgamma :: "vec \<Rightarrow> vec \<Rightarrow> vec \<Rightarrow> vec" where
  "build_w0_dgamma l_gamma l_W0 l_rho = vdiv (smul coef_C l_gamma) (vmul l_W0 (vpow l_rho 4))"

definition build_w0_drho :: "vec \<Rightarrow> vec \<Rightarrow> vec \<Rightarrow> vec" where
  "build_w0_drho l_gamma l_W0 l_rho =
     vmul (sdiv 2.0 l_W0) (ssub (pi / 3.0) (vdiv (smul coef_C (vpow l_gamma 2)) (vpow l_rho 5)))"

text \<open>\<open>np.sum(l_w * l_rho * (coef_beta + 0.5 * phi_kernel))\<close>.\<close>

definition block_energy :: "vec \<Rightarrow> vec \<Rightarrow> vec \<Rightarrow> real" where
  "block_energy l_w l_rho phi_kernel =
     sum_list (vmul (vmul l_w l_rho) (sadd coef_beta (smul 0.5 phi_kernel)))"

text \<open>
  \<open>v_rho += coef_beta + phi_kernel + l_rho * (kappa_dn * phi_U + w0_drho * phi_W)\<close>
  followed by \<open>v_rho *= 0.5\<close>.
\<close>

definition perturb_v_rho :: "vec \<Rightarrow> vec \<Rightarrow> vec \<Rightarrow> vec \<Rightarrow> vec \<Rightarrow> vec \<Rightarrow> vec \<Rightarrow> vec" where
  "perturb_v_rho v_rho l_rho kappa_dn w0_drho phi_kernel phi_U phi_W =
     (let v_rho1 = vadd v_rho (vadd (sadd coef_beta phi_kernel)
                     (vmul l_rho (vadd (vmul kappa_dn phi_U) (vmul w0_drho phi_W))))
      in map (\<lambda>v. v * 0.5) v_rho1)"

text \<open>\<open>v_gamma += l_rho * w0_dgamma * phi_W\<close>.\<close>

definition perturb_v_gamma :: "vec \<Rightarrow> vec \<Rightarrow> vec \<Rightarrow> vec \<Rightarrow> vec" where
  "perturb_v_gamma v_gamma l_rho w0_dgamma phi_W =
     vadd v_gamma (vmul (vmul l_rho w0_dgamma) phi_W)"

section \<open>The matrix of an outer block\<close>

text \<open>
  The LDA and GGA integrals of the block: \<open>Vtmp\<close> before it is added, with its
  transpose, to \<open>Varr\<close>.
\<close>

definition build_Vtmp :: "points_func \<Rightarrow> nat \<Rightarrow> nat \<Rightarrow> vec \<Rightarrow> vec \<Rightarrow> vec \<Rightarrow> mat" where
  "build_Vtmp pf l_npoints nfunctions l_w v_rho v_gamma =
     (let phi = slice2 l_npoints nfunctions (basis_values pf pt_PHI);
          phi_x = slice2 l_npoints nfunctions (basis_values pf pt_PHI_X);
          phi_y = slice2 l_npoints nfunctions (basis_values pf pt_PHI_Y);
          phi_z = slice2 l_npoints nfunctions (basis_values pf pt_PHI_Z);
          Vtmp = einsum_pb_p_p_pa nfunctions phi v_rho l_w phi;
          l_rho_x = take l_npoints (point_values pf pt_RHO_AX);
          l_rho_y = take l_npoints (point_values pf pt_RHO_AY);
          l_rho_z = take l_npoints (point_values pf pt_RHO_AZ);
          tmp_grid = vmul (smul 2.0 l_w) v_gamma;
          Vtmp1 = madd Vtmp (einsum_pb_p_p_pa nfunctions phi tmp_grid l_rho_x phi_x);
          Vtmp2 = madd Vtmp1 (einsum_pb_p_p_pa nfunctions phi tmp_grid l_rho_y phi_y);
          Vtmp3 = madd Vtmp2 (einsum_pb_p_p_pa nfunctions phi tmp_grid l_rho_z phi_z)
      in Vtmp3)"

section \<open>compute\_vv10\<close>

text \<open>
  The variables of one call: the argument \<open>D\<close>, which the caller keeps a reference to,
  the locals \<open>tD\<close>, \<open>Varr\<close>, \<open>total_e\<close>, \<open>xc_e\<close>, \<open>vv10_e\<close>, and the numbers printed.
\<close>

record state =
  st_D :: mat
  st_tD :: mat
  st_Varr :: mat
  st_total_e :: real
  st_xc_e :: real
  st_vv10_e :: real
  st_stdout :: "real list"

text \<open>A \<open>for\<close> loop whose body may raise: the first error ends the loop.\<close>

fun for_loop :: "('i \<Rightarrow> 's \<Rightarrow> error + 's) \<Rightarrow> 'i list \<Rightarrow> 's \<Rightarrow> error + 's" where
  "for_loop body [] s = Inr s"
| "for_loop body (i # is) s =
     (case body i s of Inl e \<Rightarrow> Inl e | Inr s' \<Rightarrow> for_loop body is s')"

text \<open>The accumulators of an outer block after the loop over all inner blocks.\<close>

definition inner_loop :: "block list \<Rightarrow> vec \<Rightarrow> vec \<Rightarrow> vec \<Rightarrow> vec \<Rightarrow> vec \<Rightarrow> vec \<Rightarrow> vec \<times> vec \<times> vec" where
  "inner_loop Vpot l_x l_y l_z l_rho l_W0 l_kappa =
     (let phi_kernel = zeros_like l_rho;
          phi_U = zeros_like l_rho;
          phi_W = zeros_like l_rho
      in fold (inner_body Vpot l_x l_y l_z l_W0 l_kappa) [0..<length Vpot]
           (phi_kernel, phi_U, phi_W))"

definition outer_body :: "block list \<Rightarrow> nat \<Rightarrow> state \<Rightarrow> error + state" where
  "outer_body Vpot l_block s =
     (let l_grid = Vpot ! l_block;
          l_w = grid_w l_grid;
          l_x = grid_x l_grid;
          l_y = grid_y l_grid;
          l_z = grid_z l_grid;
          l_npoints = length l_w;
          pf = compute_points l_grid;
          xc_e = st_xc_e s + vdot l_w (take l_npoints (compute_functional pf pt_V));
          v_rho = take l_npoints (compute_functional pf pt_V_RHO_A);
          v_gamma = take l_npoints (compute_functional pf pt_V_GAMMA_AA);
          l_rho = take l_npoints (point_values pf pt_RHO_A);
          l_gamma = take l_npoints (point_values pf pt_GAMMA_AA);
          (l_W0, l_kappa) = compute_vv10_kernel_arr l_rho l_gamma;
          (phi_kernel, phi_U, phi_W) = inner_loop Vpot l_x l_y l_z l_rho l_W0 l_kappa;
          kappa_dn = build_kappa_dn l_kappa l_rho;
          w0_dgamma = build_w0_dgamma l_gamma l_W0 l_rho;
          w0_drho = build_w0_drho l_gamma l_W0 l_rho;
          vv10_e = st_vv10_e s + block_energy l_w l_rho phi_kernel;
          v_rho' = perturb_v_rho v_rho l_rho kappa_dn w0_drho phi_kernel phi_U phi_W;
          v_gamma' = perturb_v_gamma v_gamma l_rho w0_dgamma phi_W;
          lpos = functions_local_to_global l_grid;
          pf' = compute_points l_grid;
          nfunctions = length lpos;
          Vtmp = build_Vtmp pf' l_npoints nfunctions l_w v_rho' v_gamma'
      in case iadd_at (st_Varr s) lpos (madd Vtmp (mT nfunctions Vtmp)) of
           Inl e \<Rightarrow> Inl e
         | Inr Varr \<Rightarrow> Inr (s\<lparr>st_xc_e := xc_e, st_vv10_e := vv10_e, st_Varr := Varr\<rparr>))"

text \<open>The variables before the loop over the outer blocks.\<close>

definition init_state :: "mat \<Rightarrow> state" where
  "init_state D =
     (let nbf = length D
      in \<lparr>st_D = D, st_tD = mmap (\<lambda>v. 2.0 * v) D, st_Varr = zeros nbf nbf,
          st_total_e = 0.0, st_xc_e = 0.0, st_vv10_e = 0.0, st_stdout = []\<rparr>)"

definition run_vv10 :: "mat \<Rightarrow> block list \<Rightarrow> error + state" where
  "run_vv10 D Vpot =
     (case for_loop (outer_body Vpot) [0..<length Vpot] (init_state D) of
        Inl e \<Rightarrow> Inl e
      | Inr s \<Rightarrow>
          let s1 = s\<lparr>st_stdout := st_stdout s @ [st_vv10_e s]\<rparr>
          in Inr (s1\<lparr>st_xc_e := st_xc_e s1 + st_vv10_e s1\<rparr>))"

text \<open>
  \<open>run_vv10\<close> gives the variables at the \<open>return\<close>, after the \<open>print\<close> of \<open>vv10_e\<close>
  and \<open>xc_e += vv10_e\<close>; \<open>compute_vv10\<close> gives the pair returned.
\<close>

definition compute_vv10 :: "mat \<Rightarrow> block list \<Rightarrow> error + real \<times> mat" where
  "compute_vv10 D Vpot =
     (case run_vv10 D Vpot of Inl e \<Rightarrow> Inl e | Inr s \<Rightarrow> Inr (st_xc_e s, st_Varr s))"

section \<open>The contributions of one outer block\<close>

text \<open>
  Names for the values that one pass of \<open>outer_body\<close> computes for its block, as
  functions of the block (lemma \<open>outer_body_eq\<close> below): the kernel values, the
  accumulators after the inner loop, the two energy contributions and \<open>Vtmp\<close>.
\<close>

definition block_kernel :: "block \<Rightarrow> vec \<times> vec" where
  "block_kernel b =
     compute_vv10_kernel_arr (map pt_RHO_A (points b)) (map pt_GAMMA_AA (points b))"

text \<open>The pair matrices of the outer block \<open>l\<close> and the inner block \<open>r\<close>.\<close>

definition block_pair :: "block \<Rightarrow> block \<Rightarrow> pair_mats" where
  "block_pair l r =
     pair_kernel (grid_x l) (grid_y l) (grid_z l) (fst (block_kernel l)) (snd (block_kernel l)) r"

definition block_phis :: "block list \<Rightarrow> block \<Rightarrow> vec \<times> vec \<times> vec" where
  "block_phis Vpot b =
     inner_loop Vpot (grid_x b) (grid_y b) (grid_z b) (map pt_RHO_A (points b))
       (fst (block_kernel b)) (snd (block_kernel b))"

definition block_xc_energy :: "block \<Rightarrow> real" where
  "block_xc_energy b = vdot (grid_w b) (map pt_V (points b))"

definition block_nl_energy :: "block list \<Rightarrow> block \<Rightarrow> real" where
  "block_nl_energy Vpot b =
     block_energy (grid_w b) (map pt_RHO_A (points b)) (fst (block_phis Vpot b))"

definition block_Vtmp :: "block list \<Rightarrow> block \<Rightarrow> mat" where
  "block_Vtmp Vpot b =
     (let l_rho = map pt_RHO_A (points b);
          l_gamma = map pt_GAMMA_AA (points b);
          l_W0 = fst (block_kernel b);
          l_kappa = snd (block_kernel b);
          phi_kernel = fst (block_phis Vpot b);
          phi_U = fst (snd (block_phis Vpot b));
          phi_W = snd (snd (block_phis Vpot b));
          v_rho = perturb_v_rho (map pt_V_RHO_A (points b)) l_rho
                    (build_kappa_dn l_kappa l_rho) (build_w0_drho l_gamma l_W0 l_rho)
                    phi_kernel phi_U phi_W;
          v_gamma = perturb_v_gamma (map pt_V_GAMMA_AA (points b)) l_rho
                      (build_w0_dgamma l_gamma l_W0 l_rho) phi_W
      in build_Vtmp b (length (points b)) (length (functions_local_to_global b)) (grid_w b)
           v_rho v_gamma)"

text \<open>
  \<open>lpos_ok nbf lpos\<close>: the local-to-global map \<open>lpos\<close> is non-empty and each of its
  indices is valid for a matrix of \<open>nbf\<close> rows and columns. \<open>vpot_ok nbf Vpot\<close>: every map
  of \<open>Vpot\<close> is so. These are the inputs on which the call returns (lemmas \<open>run_vv10_returns\<close> and
  \<open>run_vv10_raises\<close> below). \<open>square n M\<close>: \<open>M\<close> has shape \<open>(n, n)\<close>.
\<close>

definition lpos_ok :: "nat \<Rightarrow> int list \<Rightarrow> bool" where
  "lpos_ok nbf lpos = (lpos \<noteq> [] \<and> list_all (index_ok nbf) lpos)"

definition vpot_ok :: "nat \<Rightarrow> block list \<Rightarrow> bool" where
  "vpot_ok nbf Vpot = list_all (\<lambda>b. lpos_ok nbf (functions_local_to_global b)) Vpot"

definition square :: "nat \<Rightarrow> mat \<Rightarrow> bool" where
  "square n M = (length M = n \<and> list_all (\<lambda>row. length row = n) M)"

text \<open>\<open>symmetric n M\<close>: \<open>M\<close> has shape \<open>(n, n)\<close> and \<open>M[p,q] = M[q,p]\<close> for all \<open>p\<close>, \<open>q\<close>.\<close>

definition symmetric :: "nat \<Rightarrow> mat \<Rightarrow> bool" where
  "symmetric n M = (square n M \<and> (\<forall>p<n. \<forall>q<n. M ! p ! q = M ! q ! p))"

text \<open>
  \<open>lastpos idx k q\<close> is the last position below \<open>k\<close> at which the index array \<open>idx\<close>
  holds \<open>q\<close> (and 0 when there is none).
\<close>

primrec lastpos :: "nat list \<Rightarrow> nat \<Rightarrow> nat \<Rightarrow> nat" where
  "lastpos idx 0 q = 0"
| "lastpos idx (Suc k) q = (if idx ! k = q then k else lastpos idx k q)"

section \<open>Inputs of moderate size\<close>

text \<open>
  \<open>mag k x\<close>: the magnitude of \<open>x\<close> lies between \<open>2\<^sup>-\<^sup>k\<close> and \<open>2\<^sup>k\<close>. A positive number is
  \<open>moderate\<close> when it lies between \<open>2\<^sup>-\<^sup>5\<^sup>0\<close> and \<open>2\<^sup>5\<^sup>0\<close>, and a number is \<open>limited\<close> when it is
  zero or its magnitude lies in that range. A grid point is regular when its density is
  moderate, its \<open>gamma\<close> is not negative, and all its other values are limited; the basis
  values count for the \<open>nf\<close> local basis functions of the block.
\<close>

definition mag :: "nat \<Rightarrow> real \<Rightarrow> bool" where
  "mag k x = (1 / 2 ^ k \<le> \<bar>x\<bar> \<and> \<bar>x\<bar> \<le> 2 ^ k)"

definition moderate :: "real \<Rightarrow> bool" where
  "moderate x = (0 < x \<and> mag 50 x)"

definition limited :: "real \<Rightarrow> bool" where
  "limited x = (x = 0 \<or> mag 50 x)"

definition regular_grid_point :: "point \<Rightarrow> bool" where
  "regular_grid_point p =
     (moderate (pt_RHO_A p) \<and> 0 \<le> pt_GAMMA_AA p \<and> limited (pt_GAMMA_AA p)
      \<and> limited (pt_w p) \<and> limited (pt_x p) \<and> limited (pt_y p) \<and> limited (pt_z p))"

definition regular_point :: "nat \<Rightarrow> point \<Rightarrow> bool" where
  "regular_point nf p =
     (regular_grid_point p
      \<and> limited (pt_RHO_AX p) \<and> limited (pt_RHO_AY p) \<and> limited (pt_RHO_AZ p)
      \<and> limited (pt_V p) \<and> limited (pt_V_RHO_A p) \<and> limited (pt_V_GAMMA_AA p)
      \<and> list_all (\<lambda>k. limited (pt_PHI p k) \<and> limited (pt_PHI_X p k)
                        \<and> limited (pt_PHI_Y p k) \<and> limited (pt_PHI_Z p k)) [0..<nf])"

definition regular_block :: "block \<Rightarrow> bool" where
  "regular_block b =
     list_all (regular_point (length (functions_local_to_global b))) (points b)"

definition regular_vpot :: "block list \<Rightarrow> bool" where
  "regular_vpot Vpot = list_all regular_block Vpot"

text \<open>Every density of the grid is positive.\<close>

definition positive_densities :: "block list \<Rightarrow> bool" where
  "positive_densities Vpot = list_all (\<lambda>b. list_all (\<lambda>p. 0 < pt_RHO_A p) (points b)) Vpot"

section \<open>Values with inf, nan, underflow and overflow\<close>

text \<open>
  NumPy does not raise on a floating-point division by zero or on an invalid operation:
  in its default error state it warns and the result is \<open>inf\<close>, \<open>-inf\<close> or \<open>nan\<close>, which later
  operations propagate by the rules of IEEE 754. The type \<open>fp\<close> adds these three values
  to the reals. Its operations follow IEEE 754 on the special values. On finite values
  the result is the exact one when its magnitude lies between the two thresholds of
  binary64, zero when its magnitude is at most \<open>2\<^sup>-\<^sup>1\<^sup>0\<^sup>7\<^sup>5\<close> (underflow: half of the smallest
  positive binary64 number) and an infinity when its magnitude is at least
  \<open>2\<^sup>1\<^sup>0\<^sup>2\<^sup>4 - 2\<^sup>9\<^sup>7\<^sup>0\<close> (overflow). Rounding to 53 bits is not modelled. A zero has no
  sign and divides like \<open>+0\<close>, which is the zero that the only divisor of the kernel, the
  square \<open>rho * rho\<close>, can be.
\<close>

datatype fp = Fin real | PInf | NInf | NaN

text \<open>The infinity with the sign of \<open>s\<close>; \<open>nan\<close> when \<open>s\<close> is zero.\<close>

definition signed_inf :: "real \<Rightarrow> fp" where
  "signed_inf s = (if s = 0 then NaN else if 0 < s then PInf else NInf)"

definition fp_tiny :: real where
  "fp_tiny = 1 / 2 ^ 1075"

definition fp_huge :: real where
  "fp_huge = 2 ^ 1024 - 2 ^ 970"

text \<open>The binary64 value of an exact finite result \<open>r\<close>.\<close>

definition fp_of :: "real \<Rightarrow> fp" where
  "fp_of r =
     (if fp_huge \<le> \<bar>r\<bar> then signed_inf r else if \<bar>r\<bar> \<le> fp_tiny then Fin 0 else Fin r)"

fun fp_mul :: "fp \<Rightarrow> fp \<Rightarrow> fp" where
  "fp_mul NaN y = NaN"
| "fp_mul x NaN = NaN"
| "fp_mul (Fin a) (Fin b) = fp_of (a * b)"
| "fp_mul (Fin a) PInf = signed_inf a"
| "fp_mul (Fin a) NInf = signed_inf (- a)"
| "fp_mul PInf (Fin b) = signed_inf b"
| "fp_mul NInf (Fin b) = signed_inf (- b)"
| "fp_mul PInf PInf = PInf"
| "fp_mul PInf NInf = NInf"
| "fp_mul NInf PInf = NInf"
| "fp_mul NInf NInf = PInf"

fun fp_add :: "fp \<Rightarrow> fp \<Rightarrow> fp" where
  "fp_add NaN y = NaN"
| "fp_add x NaN = NaN"
| "fp_add (Fin a) (Fin b) = fp_of (a + b)"
| "fp_add PInf NInf = NaN"
| "fp_add NInf PInf = NaN"
| "fp_add PInf y = PInf"
| "fp_add x PInf = PInf"
| "fp_add NInf y = NInf"
| "fp_add x NInf = NInf"



fun fp_div :: "fp \<Rightarrow> fp \<Rightarrow> fp" where
  "fp_div NaN y = NaN"
| "fp_div x NaN = NaN"
| "fp_div (Fin a) (Fin b) = (if b = 0 then signed_inf a else fp_of (a / b))"
| "fp_div (Fin a) PInf = Fin 0"
| "fp_div (Fin a) NInf = Fin 0"
| "fp_div PInf (Fin b) = (if 0 \<le> b then PInf else NInf)"
| "fp_div NInf (Fin b) = (if 0 \<le> b then NInf else PInf)"
| "fp_div PInf y = NaN"
| "fp_div NInf y = NaN"

text \<open>
  \<open>x ** 2.0\<close>; \<open>x ** n\<close> for the float of a natural number \<open>n > 0\<close>; \<open>np.sqrt(x)\<close>; and
  \<open>x ** y\<close> for a finite exponent \<open>y > 0\<close> that is not an integer.
\<close>

fun fp_square :: "fp \<Rightarrow> fp" where
  "fp_square NaN = NaN"
| "fp_square (Fin a) = fp_of (a ^ 2)"
| "fp_square PInf = PInf"
| "fp_square NInf = PInf"


fun fp_sqrt :: "fp \<Rightarrow> fp" where
  "fp_sqrt NaN = NaN"
| "fp_sqrt (Fin a) = (if a < 0 then NaN else Fin (sqrt a))"
| "fp_sqrt PInf = PInf"
| "fp_sqrt NInf = NaN"

fun fp_powr :: "fp \<Rightarrow> real \<Rightarrow> fp" where
  "fp_powr NaN y = NaN"
| "fp_powr (Fin a) y = (if a < 0 then NaN else fp_of (a powr y))"
| "fp_powr PInf y = PInf"
| "fp_powr NInf y = PInf"


fun fp_pos :: "fp \<Rightarrow> bool" where
  "fp_pos (Fin a) = (0 < a)"
| "fp_pos PInf = True"
| "fp_pos NInf = False"
| "fp_pos NaN = False"

text \<open>
  \<open>fp_nonneg x\<close>: \<open>x\<close> is \<open>inf\<close> or a finite number that is not negative.
  \<open>fp_above_tiny x\<close>: \<open>x\<close> is \<open>inf\<close> or a finite number above the underflow threshold.
\<close>

fun fp_nonneg :: "fp \<Rightarrow> bool" where
  "fp_nonneg (Fin a) = (0 \<le> a)"
| "fp_nonneg PInf = True"
| "fp_nonneg NInf = False"
| "fp_nonneg NaN = False"

fun fp_above_tiny :: "fp \<Rightarrow> bool" where
  "fp_above_tiny (Fin a) = (fp_tiny < a)"
| "fp_above_tiny PInf = True"
| "fp_above_tiny NInf = False"
| "fp_above_tiny NaN = False"

text \<open>\<open>compute_vv10_kernel\<close> at one point, on these values.\<close>

definition compute_vv10_kernel_fp :: "fp \<Rightarrow> fp \<Rightarrow> fp \<times> fp" where
  "compute_vv10_kernel_fp rho gamma =
     (let kappa_pref = Fin (coef_B * (1.5 * pi) / ((9.0 * pi) powr (1.0 / 6.0)));
          Wp = fp_mul (Fin ((4.0 / 3.0) * pi)) rho;
          Wg = fp_mul (Fin coef_C) (fp_square (fp_div gamma (fp_mul rho rho)));
          W0 = fp_sqrt (fp_add Wg Wp);
          kappa = fp_mul (fp_powr rho (1.0 / 6.0)) kappa_pref
      in (W0, kappa))"

text \<open>
  One entry of \<open>g = l_W0[:, None] * R2 + l_kappa[:, None]\<close> on these values, the first
  quantity that \<open>compute_vv10\<close> computes from the kernel values of an outer point.
\<close>

definition g_entry_fp :: "fp \<Rightarrow> fp \<Rightarrow> fp \<Rightarrow> fp" where
  "g_entry_fp l_W0 l_kappa R2 = fp_add (fp_mul l_W0 R2) l_kappa"










section \<open>Sample inputs\<close>

text \<open>
  A grid point on the x axis with weight \<open>wt\<close>, density \<open>rho\<close>, gradient term \<open>gam\<close> and
  functional value \<open>v\<close>; a block of two points with the local-to-global map \<open>[0, 1]\<close> and
  a block of one point with the map \<open>[2, 1]\<close>; a point of zero density and a point of a
  positive density whose square underflows.
\<close>

definition sample_point :: "real \<Rightarrow> real \<Rightarrow> real \<Rightarrow> real \<Rightarrow> real \<Rightarrow> point" where
  "sample_point wt xc rho gam v =
     \<lparr>pt_w = wt, pt_x = xc, pt_y = 0, pt_z = 0, pt_RHO_A = rho, pt_GAMMA_AA = gam,
      pt_RHO_AX = 1, pt_RHO_AY = 0, pt_RHO_AZ = 0,
      pt_PHI = (\<lambda>k. 1 + real k), pt_PHI_X = (\<lambda>k. 1), pt_PHI_Y = (\<lambda>k. 0),
      pt_PHI_Z = (\<lambda>k. 0), pt_V = v, pt_V_RHO_A = 1, pt_V_GAMMA_AA = 1\<rparr>"

definition sample_block_A :: block where
  "sample_block_A =
     \<lparr>points = [sample_point 1 0 1 1 1, sample_point 2 1 2 0 1],
      functions_local_to_global = [0, 1]\<rparr>"

definition sample_block_B :: block where
  "sample_block_B =
     \<lparr>points = [sample_point 1 3 1 2 2], functions_local_to_global = [2, 1]\<rparr>"

definition sample_D :: mat where
  "sample_D = [[1, 0, 0], [0, 1, 0], [0, 0, 1]]"


section \<open>Lengths and entries of the array operations\<close>

lemma length_vadd [simp]: "length (vadd a b) = min (length a) (length b)"
  by (simp add: vadd_def)
lemma length_vmul [simp]: "length (vmul a b) = min (length a) (length b)"
  by (simp add: vmul_def)
lemma length_vdiv [simp]: "length (vdiv a b) = min (length a) (length b)"
  by (simp add: vdiv_def)
lemma length_smul [simp]: "length (smul c a) = length a"
  by (simp add: smul_def)
lemma length_sadd [simp]: "length (sadd c a) = length a"
  by (simp add: sadd_def)
lemma length_ssub [simp]: "length (ssub c a) = length a"
  by (simp add: ssub_def)
lemma length_sdiv [simp]: "length (sdiv c a) = length a"
  by (simp add: sdiv_def)
lemma length_vpow [simp]: "length (vpow a n) = length a"
  by (simp add: vpow_def)
lemma length_vneg [simp]: "length (vneg a) = length a"
  by (simp add: vneg_def)
lemma length_zeros_like [simp]: "length (zeros_like a) = length a"
  by (simp add: zeros_like_def)
lemma length_sum_axis1 [simp]: "length (sum_axis1 M) = length M"
  by (simp add: sum_axis1_def)

lemma nth_vadd [simp]: "i < length a \<Longrightarrow> i < length b \<Longrightarrow> vadd a b ! i = a ! i + b ! i"
  by (simp add: vadd_def)
lemma nth_vmul [simp]: "i < length a \<Longrightarrow> i < length b \<Longrightarrow> vmul a b ! i = a ! i * b ! i"
  by (simp add: vmul_def)
lemma nth_vdiv [simp]: "i < length a \<Longrightarrow> i < length b \<Longrightarrow> vdiv a b ! i = a ! i / b ! i"
  by (simp add: vdiv_def)
lemma nth_smul [simp]: "i < length a \<Longrightarrow> smul c a ! i = c * a ! i"
  by (simp add: smul_def)
lemma nth_sadd [simp]: "i < length a \<Longrightarrow> sadd c a ! i = c + a ! i"
  by (simp add: sadd_def)
lemma nth_ssub [simp]: "i < length a \<Longrightarrow> ssub c a ! i = c - a ! i"
  by (simp add: ssub_def)
lemma nth_sdiv [simp]: "i < length a \<Longrightarrow> sdiv c a ! i = c / a ! i"
  by (simp add: sdiv_def)
lemma nth_vpow [simp]: "i < length a \<Longrightarrow> vpow a n ! i = a ! i ^ n"
  by (simp add: vpow_def)
lemma nth_vneg [simp]: "i < length a \<Longrightarrow> vneg a ! i = - a ! i"
  by (simp add: vneg_def)
lemma nth_zeros_like [simp]: "i < length a \<Longrightarrow> zeros_like a ! i = 0"
  by (simp add: zeros_like_def)
lemma nth_sum_axis1 [simp]: "i < length M \<Longrightarrow> sum_axis1 M ! i = sum_list (M ! i)"
  by (simp add: sum_axis1_def)

lemma length_madd [simp]: "length (madd M N) = min (length M) (length N)"
  by (simp add: madd_def)
lemma length_mmul [simp]: "length (mmul M N) = min (length M) (length N)"
  by (simp add: mmul_def)
lemma length_mmap [simp]: "length (mmap f M) = length M"
  by (simp add: mmap_def)
lemma length_outer [simp]: "length (outer f a b) = length a"
  by (simp add: outer_def)
lemma length_rowwise [simp]: "length (rowwise f a M) = min (length a) (length M)"
  by (simp add: rowwise_def)
lemma length_colwise [simp]: "length (colwise f r M) = length M"
  by (simp add: colwise_def)

lemma nth_madd [simp]: "i < length M \<Longrightarrow> i < length N \<Longrightarrow> madd M N ! i = map2 (+) (M ! i) (N ! i)"
  by (simp add: madd_def)
lemma nth_mmul [simp]: "i < length M \<Longrightarrow> i < length N \<Longrightarrow> mmul M N ! i = map2 (*) (M ! i) (N ! i)"
  by (simp add: mmul_def)
lemma nth_mmap [simp]: "i < length M \<Longrightarrow> mmap f M ! i = map f (M ! i)"
  by (simp add: mmap_def)
lemma nth_outer [simp]: "i < length a \<Longrightarrow> outer f a b ! i = map (f (a ! i)) b"
  by (simp add: outer_def)
lemma nth_rowwise [simp]:
  "i < length a \<Longrightarrow> i < length M \<Longrightarrow> rowwise f a M ! i = map (f (a ! i)) (M ! i)"
  by (simp add: rowwise_def)
lemma nth_colwise [simp]: "i < length M \<Longrightarrow> colwise f r M ! i = map2 f r (M ! i)"
  by (simp add: colwise_def)

lemma length_kernel_arr [simp]:
  "length (fst (compute_vv10_kernel_arr rho gamma)) = min (length rho) (length gamma)"
  "length (snd (compute_vv10_kernel_arr rho gamma)) = min (length rho) (length gamma)"
  by (simp_all add: compute_vv10_kernel_arr_def)

lemma nth_kernel_arr [simp]:
  assumes "i < length rho" "i < length gamma"
  shows "fst (compute_vv10_kernel_arr rho gamma) ! i = fst (compute_vv10_kernel (rho ! i) (gamma ! i))"
    and "snd (compute_vv10_kernel_arr rho gamma) ! i = snd (compute_vv10_kernel (rho ! i) (gamma ! i))"
  using assms by (simp_all add: compute_vv10_kernel_arr_def)


lemma length_R2:
  assumes "length l_y = length l_x" "length l_z = length l_x"
  shows "length (build_R2 l_x l_y l_z r_x r_y r_z) = length l_x"
  using assms by (simp add: build_R2_def)

section \<open>Properties of the kernel\<close>




section \<open>The pair kernel\<close>



lemma pair_kernel_lengths:
  fixes l_x l_y l_z l_W0 l_kappa :: vec and r :: block
  assumes lens: "length l_y = length l_x" "length l_z = length l_x"
      "length l_W0 = length l_x" "length l_kappa = length l_x"
  shows "length (pm_F_kernal (pair_kernel l_x l_y l_z l_W0 l_kappa r)) = length l_x"
    and "length (pm_F_U (pair_kernel l_x l_y l_z l_W0 l_kappa r)) = length l_x"
    and "length (pm_F_W (pair_kernel l_x l_y l_z l_W0 l_kappa r)) = length l_x"
  using lens
  by (simp_all add: pair_kernel_def Let_def split_beta build_g_def build_gp_def
      build_F_kernal_def build_F_U_def build_F_W_def length_R2)



section \<open>The indexed update\<close>

lemma lastpos_less: "\<exists>b<k. idx ! b = q \<Longrightarrow> lastpos idx k q < k \<and> idx ! lastpos idx k q = q"
proof (induction k)
  case 0
  then show ?case by simp
next
  case (Suc k)
  show ?case
  proof (cases "idx ! k = q")
    case True
    then show ?thesis by simp
  next
    case False
    with Suc.prems have "\<exists>b<k. idx ! b = q"
      by (metis less_Suc_eq)
    with Suc.IH False show ?thesis by auto
  qed
qed

lemma fold_upt_Suc: "fold f [0..<Suc k] s = f k (fold f [0..<k] s)"
  by simp

lemma length_row_fold [simp]:
  "length (fold (\<lambda>b r. r[idx ! b := vals ! b]) bs row) = length row"
  by (induction bs arbitrary: row) simp_all

lemma nth_row_fold:
  assumes "q < length (row :: vec)"
  shows "fold (\<lambda>b r. r[idx ! b := vals ! b]) [0..<k] row ! q =
           (if \<exists>b<k. idx ! b = q then vals ! lastpos idx k q else row ! q)"
proof (induction k)
  case 0
  show ?case by simp
next
  case (Suc k)
  let ?F = "\<lambda>k. fold (\<lambda>b r. r[idx ! b := vals ! b]) [0..<k] row"
  have step: "?F (Suc k) = (?F k)[idx ! k := vals ! k]"
    by simp
  show ?case
  proof (cases "idx ! k = q")
    case True
    then have "?F (Suc k) ! q = vals ! k"
      using assms by (simp only: step) simp
    moreover have "\<exists>b<Suc k. idx ! b = q"
      using True by blast
    ultimately show ?thesis
      using True by simp
  next
    case False
    then have ex: "(\<exists>b<Suc k. idx ! b = q) = (\<exists>b<k. idx ! b = q)"
      by (metis less_Suc_eq)
    have "?F (Suc k) ! q = ?F k ! q"
      using False by (simp only: step) simp
    also have "\<dots> = (if \<exists>b<k. idx ! b = q then vals ! lastpos idx k q else row ! q)"
      by (rule Suc.IH)
    also have "\<dots> = (if \<exists>b<Suc k. idx ! b = q then vals ! lastpos idx (Suc k) q else row ! q)"
      using False by (simp only: ex lastpos.simps if_False)
    finally show ?thesis .
  qed
qed

lemma length_setitem_row [simp]: "length (setitem_row row idx vals) = length row"
  by (simp add: setitem_row_def)

lemma nth_setitem_row:
  "q < length row \<Longrightarrow>
     setitem_row row idx vals ! q =
       (if \<exists>b<length idx. idx ! b = q then vals ! lastpos idx (length idx) q else row ! q)"
  by (simp add: setitem_row_def nth_row_fold)

lemma length_mat_fold [simp]:
  "length (fold (\<lambda>a M'. M'[idx ! a := setitem_row (M' ! (idx ! a)) idx (T ! a)]) as M) = length M"
  by (induction as arbitrary: M) simp_all

lemma nth_mat_fold:
  assumes p: "p < length (M :: mat)" and q: "q < length (M ! p)"
  shows "length (fold (\<lambda>a M'. M'[idx ! a := setitem_row (M' ! (idx ! a)) idx (T ! a)]) [0..<k] M ! p)
           = length (M ! p)
       \<and> fold (\<lambda>a M'. M'[idx ! a := setitem_row (M' ! (idx ! a)) idx (T ! a)]) [0..<k] M ! p ! q =
           (if (\<exists>a<k. idx ! a = p) \<and> (\<exists>b<length idx. idx ! b = q)
            then T ! lastpos idx k p ! lastpos idx (length idx) q else M ! p ! q)"
proof (induction k)
  case 0
  show ?case by simp
next
  case (Suc k)
  let ?F = "\<lambda>k. fold (\<lambda>a M'. M'[idx ! a := setitem_row (M' ! (idx ! a)) idx (T ! a)]) [0..<k] M"
  let ?Q = "\<exists>b<length idx. idx ! b = q"
  have step: "?F (Suc k) = (?F k)[idx ! k := setitem_row (?F k ! (idx ! k)) idx (T ! k)]"
    by simp
  have len: "length (?F k ! p) = length (M ! p)"
    using Suc.IH by blast
  have val: "?F k ! p ! q = (if (\<exists>a<k. idx ! a = p) \<and> ?Q
            then T ! lastpos idx k p ! lastpos idx (length idx) q else M ! p ! q)"
    using Suc.IH by blast
  show ?case
  proof (cases "idx ! k = p")
    case True
    have row: "?F (Suc k) ! p = setitem_row (?F k ! p) idx (T ! k)"
      using p True by (simp only: step) simp
    have ex: "\<exists>a<Suc k. idx ! a = p"
      using True by blast
    have lp: "lastpos idx (Suc k) p = k"
      using True by simp
    have "?F (Suc k) ! p ! q =
        (if ?Q then T ! k ! lastpos idx (length idx) q else ?F k ! p ! q)"
      using q len by (simp only: row) (simp add: nth_setitem_row)
    also have "\<dots> = (if ?Q then T ! k ! lastpos idx (length idx) q else M ! p ! q)"
      using val by (cases ?Q) auto
    also have "\<dots> = (if (\<exists>a<Suc k. idx ! a = p) \<and> ?Q
            then T ! lastpos idx (Suc k) p ! lastpos idx (length idx) q else M ! p ! q)"
      using ex by (simp only: lp) simp
    finally have "?F (Suc k) ! p ! q = (if (\<exists>a<Suc k. idx ! a = p) \<and> ?Q
            then T ! lastpos idx (Suc k) p ! lastpos idx (length idx) q else M ! p ! q)" .
    moreover have "length (?F (Suc k) ! p) = length (M ! p)"
      using len by (simp only: row) simp
    ultimately show ?thesis
      by blast
  next
    case False
    then have ex: "(\<exists>a<Suc k. idx ! a = p) = (\<exists>a<k. idx ! a = p)"
      by (metis less_Suc_eq)
    have row: "?F (Suc k) ! p = ?F k ! p"
      using False by (simp only: step) simp
    have lp: "lastpos idx (Suc k) p = lastpos idx k p"
      using False by simp
    have "?F (Suc k) ! p ! q = (if (\<exists>a<Suc k. idx ! a = p) \<and> ?Q
            then T ! lastpos idx (Suc k) p ! lastpos idx (length idx) q else M ! p ! q)"
      using val by (simp only: row ex lp)
    moreover have "length (?F (Suc k) ! p) = length (M ! p)"
      using len by (simp only: row)
    ultimately show ?thesis
      by blast
  qed
qed

lemma length_setitem [simp]: "length (setitem M idx T) = length M"
  by (simp add: setitem_def)

lemma nth_setitem:
  assumes "p < length (M :: mat)" and "q < length (M ! p)"
  shows "length (setitem M idx T ! p) = length (M ! p)"
    and "setitem M idx T ! p ! q =
           (if (\<exists>a<length idx. idx ! a = p) \<and> (\<exists>b<length idx. idx ! b = q)
            then T ! lastpos idx (length idx) p ! lastpos idx (length idx) q else M ! p ! q)"
  using nth_mat_fold [OF assms, of idx T "length idx"] by (simp_all add: setitem_def)

lemma square_nth: "square n M \<Longrightarrow> p < n \<Longrightarrow> length (M ! p) = n"
  by (simp add: square_def list_all_length)

lemma square_length: "square n M \<Longrightarrow> length M = n"
  by (simp add: square_def)

lemma squareI: "length M = n \<Longrightarrow> (\<And>p. p < n \<Longrightarrow> length (M ! p) = n) \<Longrightarrow> square n M"
  by (simp add: square_def list_all_length)

lemma norm_index_less: "index_ok n i \<Longrightarrow> norm_index n i < n"
  by (auto simp: index_ok_def norm_index_def)

lemma nth_getitem:
  "a < length idx \<Longrightarrow> b < length idx \<Longrightarrow> getitem M idx ! a ! b = M ! (idx ! a) ! (idx ! b)"
  by (simp add: getitem_def)

lemma iadd_at_raises: "\<not> lpos_ok (length M) lpos \<Longrightarrow> iadd_at M lpos X = Inl IndexError"
  by (auto simp: iadd_at_def norm_indices_def lpos_ok_def)

lemma iadd_at_symmetric:
  assumes sq: "square n M" and sym: "\<And>p q. p < n \<Longrightarrow> q < n \<Longrightarrow> M ! p ! q = M ! q ! p"
    and lok: "lpos_ok n lpos"
    and sqX: "square (length lpos) X"
    and symX: "\<And>a b. a < length lpos \<Longrightarrow> b < length lpos \<Longrightarrow> X ! a ! b = X ! b ! a"
  shows "\<exists>M'. iadd_at M lpos X = Inr M' \<and> square n M'
           \<and> (\<forall>p<n. \<forall>q<n. M' ! p ! q = M' ! q ! p)"
proof -
  have ok: "list_all (index_ok n) lpos" and ne: "lpos \<noteq> []"
    using lok by (simp_all add: lpos_ok_def)
  define idx where "idx = map (norm_index n) lpos"
  define T where "T = madd (getitem M idx) X"
  define M' where "M' = setitem M idx T"
  let ?P = "\<lambda>p. \<exists>a<length idx. idx ! a = p"
  let ?lp = "\<lambda>p. lastpos idx (length idx) p"
  have lenM: "length M = n"
    using sq by (rule square_length)
  have nf: "length idx = length lpos"
    by (simp add: idx_def)
  have run: "iadd_at M lpos X = Inr M'"
    using ok ne by (simp add: iadd_at_def norm_indices_def lenM M'_def T_def idx_def)
  have idx_less: "idx ! a < n" if "a < length idx" for a
    using that ok by (simp add: idx_def list_all_length norm_index_less)
  have T: "T ! a ! b = M ! (idx ! a) ! (idx ! b) + X ! a ! b"
    if "a < length idx" "b < length idx" for a b
  proof -
    have "length (X ! a) = length lpos"
      using sqX that nf by (simp add: square_nth)
    moreover have "length X = length lpos"
      using sqX by (rule square_length)
    ultimately show ?thesis
      using that nf by (simp add: T_def getitem_def)
  qed
  have entry: "M' ! p ! q = (if ?P p \<and> ?P q then T ! ?lp p ! ?lp q else M ! p ! q)"
    and row: "length (M' ! p) = n" if "p < n" "q < n" for p q
    using that nth_setitem [of p M q idx T] sq lenM by (simp_all add: M'_def square_nth)
  have "square n M'"
  proof (rule squareI)
    show "length M' = n"
      by (simp add: M'_def lenM)
    show "length (M' ! p) = n" if "p < n" for p
      using row [OF that that] .
  qed
  moreover have "M' ! p ! q = M' ! q ! p" if pq: "p < n" "q < n" for p q
  proof (cases "?P p \<and> ?P q")
    case True
    then have a: "?lp p < length idx" "idx ! ?lp p = p"
      and b: "?lp q < length idx" "idx ! ?lp q = q"
      using lastpos_less [of "length idx" idx p] lastpos_less [of "length idx" idx q]
      by blast+
    have "M' ! p ! q = M ! p ! q + X ! ?lp p ! ?lp q"
      using True a b by (simp add: entry [OF pq] T)
    also have "\<dots> = M ! q ! p + X ! ?lp q ! ?lp p"
      using sym [OF pq] symX [of "?lp p" "?lp q"] a b nf by simp
    also have "\<dots> = M' ! q ! p"
      using True a b pq by (simp add: entry T)
    finally show ?thesis .
  next
    case False
    then show ?thesis
      using pq sym [OF pq] by (auto simp: entry)
  qed
  ultimately show ?thesis
    using run by blast
qed


lemma symmetric_zeros: "symmetric n (zeros n n)"
  by (simp add: symmetric_def square_def zeros_def list_all_length)

lemma square_einsum: "square n (einsum_pb_p_p_pa n A u v B)"
  by (simp add: square_def einsum_pb_p_p_pa_def list_all_length)

lemma square_madd: "square n M \<Longrightarrow> square n N \<Longrightarrow> square n (madd M N)"
  by (simp add: square_def list_all_length)

lemma square_build_Vtmp: "square nf (build_Vtmp pf np nf l_w v_rho v_gamma)"
  by (simp add: build_Vtmp_def Let_def square_madd square_einsum)

lemma symmetric_plus_transpose:
  assumes "square n V"
  shows "symmetric n (madd V (mT n V))"
proof -
  have len: "length V = n" and rows: "\<And>p. p < n \<Longrightarrow> length (V ! p) = n"
    using assms by (simp_all add: square_length square_nth)
  have sqT: "square n (mT n V)"
    by (simp add: square_def mT_def list_all_length len)
  have "madd V (mT n V) ! p ! q = V ! p ! q + V ! q ! p" if "p < n" "q < n" for p q
    using that len rows by (simp add: mT_def)
  then show ?thesis
    using assms sqT by (simp add: symmetric_def square_madd)
qed

lemma iadd_at_symmetric':
  assumes "symmetric n M" and "lpos_ok n lpos" and "square (length lpos) V"
  shows "\<exists>M'. iadd_at M lpos (madd V (mT (length lpos) V)) = Inr M' \<and> symmetric n M'"
proof -
  have X: "symmetric (length lpos) (madd V (mT (length lpos) V))"
    using assms(3) by (rule symmetric_plus_transpose)
  show ?thesis
    using iadd_at_symmetric [of n M lpos "madd V (mT (length lpos) V)"] assms(1,2) X
    by (simp add: symmetric_def)
qed




section \<open>The loop over the outer blocks\<close>

lemma outer_body_eq:
  "outer_body Vpot k s =
     (case iadd_at (st_Varr s) (functions_local_to_global (Vpot ! k))
             (madd (block_Vtmp Vpot (Vpot ! k))
                (mT (length (functions_local_to_global (Vpot ! k))) (block_Vtmp Vpot (Vpot ! k)))) of
        Inl e \<Rightarrow> Inl e
      | Inr M \<Rightarrow> Inr (s\<lparr>st_xc_e := st_xc_e s + block_xc_energy (Vpot ! k),
                         st_vv10_e := st_vv10_e s + block_nl_energy Vpot (Vpot ! k),
                         st_Varr := M\<rparr>))"
  unfolding outer_body_def block_Vtmp_def block_xc_energy_def block_nl_energy_def
    block_phis_def block_kernel_def compute_points_def point_values_def
    compute_functional_def Let_def split_beta
  by (simp add: grid_w_def split: sum.split)

lemma square_block_Vtmp: "square (length (functions_local_to_global b)) (block_Vtmp Vpot b)"
  by (simp add: block_Vtmp_def Let_def square_build_Vtmp)

lemma outer_body_step:
  assumes "symmetric n (st_Varr s)"
    and "lpos_ok n (functions_local_to_global (Vpot ! k))"
  shows "\<exists>M'. outer_body Vpot k s =
            Inr (s\<lparr>st_xc_e := st_xc_e s + block_xc_energy (Vpot ! k),
                   st_vv10_e := st_vv10_e s + block_nl_energy Vpot (Vpot ! k),
                   st_Varr := M'\<rparr>)
          \<and> symmetric n M'"
proof -
  obtain M' where "iadd_at (st_Varr s) (functions_local_to_global (Vpot ! k))
             (madd (block_Vtmp Vpot (Vpot ! k))
                (mT (length (functions_local_to_global (Vpot ! k))) (block_Vtmp Vpot (Vpot ! k))))
           = Inr M'" and "symmetric n M'"
    using iadd_at_symmetric' [OF assms square_block_Vtmp] by blast
  then have "outer_body Vpot k s =
            Inr (s\<lparr>st_xc_e := st_xc_e s + block_xc_energy (Vpot ! k),
                   st_vv10_e := st_vv10_e s + block_nl_energy Vpot (Vpot ! k),
                   st_Varr := M'\<rparr>)
          \<and> symmetric n M'"
    by (simp add: outer_body_eq)
  then show ?thesis ..
qed

lemma outer_body_raises:
  assumes "symmetric n (st_Varr s)"
    and "\<not> lpos_ok n (functions_local_to_global (Vpot ! k))"
  shows "outer_body Vpot k s = Inl IndexError"
proof -
  have "length (st_Varr s) = n"
    using assms(1) by (simp add: symmetric_def square_length)
  then show ?thesis
    using assms(2) by (simp add: outer_body_eq iadd_at_raises)
qed

lemma for_loop_outer:
  assumes "symmetric n (st_Varr s)"
    and "\<forall>k\<in>set ks. lpos_ok n (functions_local_to_global (Vpot ! k))"
  shows "\<exists>M'. for_loop (outer_body Vpot) ks s =
            Inr (s\<lparr>st_xc_e := st_xc_e s + (\<Sum>k\<leftarrow>ks. block_xc_energy (Vpot ! k)),
                   st_vv10_e := st_vv10_e s + (\<Sum>k\<leftarrow>ks. block_nl_energy Vpot (Vpot ! k)),
                   st_Varr := M'\<rparr>)
          \<and> symmetric n M'"
  using assms
proof (induction ks arbitrary: s)
  case Nil
  then have "for_loop (outer_body Vpot) [] s =
            Inr (s\<lparr>st_xc_e := st_xc_e s + (\<Sum>k\<leftarrow>[]. block_xc_energy (Vpot ! k)),
                   st_vv10_e := st_vv10_e s + (\<Sum>k\<leftarrow>[]. block_nl_energy Vpot (Vpot ! k)),
                   st_Varr := st_Varr s\<rparr>)
          \<and> symmetric n (st_Varr s)"
    by simp
  then show ?case ..
next
  case (Cons k ks)
  let ?s' = "\<lambda>M. s\<lparr>st_xc_e := st_xc_e s + block_xc_energy (Vpot ! k),
                   st_vv10_e := st_vv10_e s + block_nl_energy Vpot (Vpot ! k),
                   st_Varr := M\<rparr>"
  obtain M1 where step: "outer_body Vpot k s = Inr (?s' M1)" and sym1: "symmetric n M1"
    using outer_body_step [of n s Vpot k] Cons.prems by auto
  have "symmetric n (st_Varr (?s' M1))"
    using sym1 by simp
  moreover have "\<forall>k\<in>set ks. lpos_ok n (functions_local_to_global (Vpot ! k))"
    using Cons.prems by simp
  ultimately obtain M2 where
    rest: "for_loop (outer_body Vpot) ks (?s' M1) =
            Inr ((?s' M1)\<lparr>st_xc_e := st_xc_e (?s' M1) + (\<Sum>k\<leftarrow>ks. block_xc_energy (Vpot ! k)),
                   st_vv10_e := st_vv10_e (?s' M1) + (\<Sum>k\<leftarrow>ks. block_nl_energy Vpot (Vpot ! k)),
                   st_Varr := M2\<rparr>)"
    and sym2: "symmetric n M2"
    using Cons.IH [of "?s' M1"] by blast
  have "for_loop (outer_body Vpot) (k # ks) s =
      Inr (s\<lparr>st_xc_e := st_xc_e s + (\<Sum>k\<leftarrow>k # ks. block_xc_energy (Vpot ! k)),
             st_vv10_e := st_vv10_e s + (\<Sum>k\<leftarrow>k # ks. block_nl_energy Vpot (Vpot ! k)),
             st_Varr := M2\<rparr>)"
    by (simp add: step rest add.assoc)
  with sym2 show ?case
    by blast
qed

lemma for_loop_outer_raises:
  assumes "symmetric n (st_Varr s)"
    and "\<not> (\<forall>k\<in>set ks. lpos_ok n (functions_local_to_global (Vpot ! k)))"
  shows "for_loop (outer_body Vpot) ks s = Inl IndexError"
  using assms
proof (induction ks arbitrary: s)
  case Nil
  then show ?case by simp
next
  case (Cons k ks)
  show ?case
  proof (cases "lpos_ok n (functions_local_to_global (Vpot ! k))")
    case False
    then show ?thesis
      using outer_body_raises [OF Cons.prems(1), of Vpot k] by simp
  next
    case True
    then obtain s' where step: "outer_body Vpot k s = Inr s'" and sym: "symmetric n (st_Varr s')"
      using outer_body_step [OF Cons.prems(1), of Vpot k] by force
    have "\<not> (\<forall>k\<in>set ks. lpos_ok n (functions_local_to_global (Vpot ! k)))"
      using True Cons.prems(2) by simp
    then have "for_loop (outer_body Vpot) ks s' = Inl IndexError"
      using Cons.IH [OF sym] by blast
    then show ?thesis
      by (simp add: step)
  qed
qed

lemma sum_list_upt_nth: "(\<Sum>k\<leftarrow>[0..<length xs]. f (xs ! k)) = (\<Sum>x\<leftarrow>xs. f x)"
proof -
  have "map (\<lambda>k. f (xs ! k)) [0..<length xs] = map f (map ((!) xs) [0..<length xs])"
    by (simp only: map_map comp_def)
  also have "\<dots> = map f xs"
    by (simp only: map_nth)
  finally show ?thesis
    by (simp only:)
qed

lemma vpot_ok_iff:
  "vpot_ok n Vpot \<longleftrightarrow>
     (\<forall>k\<in>set [0..<length Vpot]. lpos_ok n (functions_local_to_global (Vpot ! k)))"
  by (auto simp: vpot_ok_def list_all_length)

lemma run_vv10_returns:
  assumes "vpot_ok (length D) Vpot"
  shows "\<exists>M. run_vv10 D Vpot =
            Inr \<lparr>st_D = D, st_tD = mmap (\<lambda>v. 2.0 * v) D, st_Varr = M, st_total_e = 0,
                 st_xc_e = (\<Sum>b\<leftarrow>Vpot. block_xc_energy b) + (\<Sum>b\<leftarrow>Vpot. block_nl_energy Vpot b),
                 st_vv10_e = (\<Sum>b\<leftarrow>Vpot. block_nl_energy Vpot b),
                 st_stdout = [\<Sum>b\<leftarrow>Vpot. block_nl_energy Vpot b]\<rparr>
          \<and> symmetric (length D) M"
proof -
  have "symmetric (length D) (st_Varr (init_state D))"
    by (simp add: init_state_def Let_def symmetric_zeros)
  then obtain M where
    loop: "for_loop (outer_body Vpot) [0..<length Vpot] (init_state D) =
        Inr ((init_state D)\<lparr>
          st_xc_e := st_xc_e (init_state D) + (\<Sum>k\<leftarrow>[0..<length Vpot]. block_xc_energy (Vpot ! k)),
          st_vv10_e := st_vv10_e (init_state D)
             + (\<Sum>k\<leftarrow>[0..<length Vpot]. block_nl_energy Vpot (Vpot ! k)),
          st_Varr := M\<rparr>)"
    and sym: "symmetric (length D) M"
    using for_loop_outer [of "length D" "init_state D" "[0..<length Vpot]" Vpot] assms
    unfolding vpot_ok_iff by blast
  have "run_vv10 D Vpot =
            Inr \<lparr>st_D = D, st_tD = mmap (\<lambda>v. 2.0 * v) D, st_Varr = M, st_total_e = 0,
                 st_xc_e = (\<Sum>b\<leftarrow>Vpot. block_xc_energy b) + (\<Sum>b\<leftarrow>Vpot. block_nl_energy Vpot b),
                 st_vv10_e = (\<Sum>b\<leftarrow>Vpot. block_nl_energy Vpot b),
                 st_stdout = [\<Sum>b\<leftarrow>Vpot. block_nl_energy Vpot b]\<rparr>"
    unfolding run_vv10_def loop
    by (simp add: init_state_def Let_def sum_list_upt_nth)
  with sym show ?thesis
    by blast
qed

lemma run_vv10_raises:
  assumes "\<not> vpot_ok (length D) Vpot"
  shows "run_vv10 D Vpot = Inl IndexError"
proof -
  have "symmetric (length D) (st_Varr (init_state D))"
    by (simp add: init_state_def Let_def symmetric_zeros)
  then have "for_loop (outer_body Vpot) [0..<length Vpot] (init_state D) = Inl IndexError"
    using assms unfolding vpot_ok_iff by (rule for_loop_outer_raises)
  then show ?thesis
    by (simp add: run_vv10_def)
qed

section \<open>The loop over the inner blocks\<close>

lemma fold_inner_body:
  fixes l_x l_y l_z l_W0 l_kappa pk pu pw :: vec
  assumes lens: "length l_y = length l_x" "length l_z = length l_x"
      "length l_W0 = length l_x" "length l_kappa = length l_x"
    and accs: "length pk = length l_x" "length pu = length l_x" "length pw = length l_x"
  shows "fold (inner_body Vpot l_x l_y l_z l_W0 l_kappa) ks (pk, pu, pw) =
     (map (\<lambda>i. pk ! i + (\<Sum>k\<leftarrow>ks.
          sum_list (pm_F_kernal (pair_kernel l_x l_y l_z l_W0 l_kappa (Vpot ! k)) ! i)))
        [0..<length l_x],
      map (\<lambda>i. pu ! i + (\<Sum>k\<leftarrow>ks.
          - sum_list (pm_F_U (pair_kernel l_x l_y l_z l_W0 l_kappa (Vpot ! k)) ! i)))
        [0..<length l_x],
      map (\<lambda>i. pw ! i + (\<Sum>k\<leftarrow>ks.
          - sum_list (pm_F_W (pair_kernel l_x l_y l_z l_W0 l_kappa (Vpot ! k)) ! i)))
        [0..<length l_x])"
  using accs
proof (induction ks arbitrary: pk pu pw)
  case Nil
  then show ?case
    by (auto intro!: nth_equalityI)
next
  case (Cons k ks)
  let ?pm = "pair_kernel l_x l_y l_z l_W0 l_kappa (Vpot ! k)"
  let ?pk = "vadd pk (sum_axis1 (pm_F_kernal ?pm))"
  let ?pu = "vadd pu (vneg (sum_axis1 (pm_F_U ?pm)))"
  let ?pw = "vadd pw (vneg (sum_axis1 (pm_F_W ?pm)))"
  note pl = pair_kernel_lengths [OF lens, of "Vpot ! k"]
  have step: "inner_body Vpot l_x l_y l_z l_W0 l_kappa k (pk, pu, pw) = (?pk, ?pu, ?pw)"
    by (simp add: inner_body_def Let_def)
  have l': "length ?pk = length l_x" "length ?pu = length l_x" "length ?pw = length l_x"
    using Cons.prems pl by simp_all
  have e: "?pk ! i = pk ! i + sum_list (pm_F_kernal ?pm ! i)"
     "?pu ! i = pu ! i + - sum_list (pm_F_U ?pm ! i)"
     "?pw ! i = pw ! i + - sum_list (pm_F_W ?pm ! i)" if "i < length l_x" for i
    using that Cons.prems pl by simp_all
  have "fold (inner_body Vpot l_x l_y l_z l_W0 l_kappa) (k # ks) (pk, pu, pw) =
      fold (inner_body Vpot l_x l_y l_z l_W0 l_kappa) ks (?pk, ?pu, ?pw)"
    by (simp only: fold_simps step)
  also note Cons.IH [OF l']
  finally show ?case
    by (simp add: e add.assoc)
qed

lemma block_lengths [simp]:
  "length (grid_w b) = length (points b)" "length (grid_x b) = length (points b)"
  "length (grid_y b) = length (points b)" "length (grid_z b) = length (points b)"
  "length (fst (block_kernel b)) = length (points b)"
  "length (snd (block_kernel b)) = length (points b)"
  by (simp_all add: grid_w_def grid_x_def grid_y_def grid_z_def block_kernel_def)

lemma block_phis_eq:
  "block_phis Vpot l =
     (map (\<lambda>i. \<Sum>r\<leftarrow>Vpot. sum_list (pm_F_kernal (block_pair l r) ! i)) [0..<length (points l)],
      map (\<lambda>i. \<Sum>r\<leftarrow>Vpot. - sum_list (pm_F_U (block_pair l r) ! i)) [0..<length (points l)],
      map (\<lambda>i. \<Sum>r\<leftarrow>Vpot. - sum_list (pm_F_W (block_pair l r) ! i)) [0..<length (points l)])"
proof -
  have "block_phis Vpot l =
      fold (inner_body Vpot (grid_x l) (grid_y l) (grid_z l) (fst (block_kernel l))
             (snd (block_kernel l))) [0..<length Vpot]
        (zeros_like (map pt_RHO_A (points l)), zeros_like (map pt_RHO_A (points l)),
         zeros_like (map pt_RHO_A (points l)))"
    by (simp add: block_phis_def inner_loop_def Let_def)
  also have "\<dots> =
     (map (\<lambda>i. zeros_like (map pt_RHO_A (points l)) ! i + (\<Sum>k\<leftarrow>[0..<length Vpot].
          sum_list (pm_F_kernal (block_pair l (Vpot ! k)) ! i)))
        [0..<length (grid_x l)],
      map (\<lambda>i. zeros_like (map pt_RHO_A (points l)) ! i + (\<Sum>k\<leftarrow>[0..<length Vpot].
          - sum_list (pm_F_U (block_pair l (Vpot ! k)) ! i)))
        [0..<length (grid_x l)],
      map (\<lambda>i. zeros_like (map pt_RHO_A (points l)) ! i + (\<Sum>k\<leftarrow>[0..<length Vpot].
          - sum_list (pm_F_W (block_pair l (Vpot ! k)) ! i)))
        [0..<length (grid_x l)])"
    unfolding block_pair_def by (rule fold_inner_body) simp_all
  also have "\<dots> =
     (map (\<lambda>i. \<Sum>r\<leftarrow>Vpot. sum_list (pm_F_kernal (block_pair l r) ! i)) [0..<length (points l)],
      map (\<lambda>i. \<Sum>r\<leftarrow>Vpot. - sum_list (pm_F_U (block_pair l r) ! i)) [0..<length (points l)],
      map (\<lambda>i. \<Sum>r\<leftarrow>Vpot. - sum_list (pm_F_W (block_pair l r) ! i)) [0..<length (points l)])"
    by (simp add: sum_list_upt_nth [of "\<lambda>r. sum_list (pm_F_kernal (block_pair l r) ! i)" for i]
        sum_list_upt_nth [of "\<lambda>r. - sum_list (pm_F_U (block_pair l r) ! i)" for i]
        sum_list_upt_nth [of "\<lambda>r. - sum_list (pm_F_W (block_pair l r) ! i)" for i])
  finally show ?thesis .
qed

lemma sum_list_perm:
  fixes f :: "'a \<Rightarrow> real"
  assumes "mset xs = mset ys"
  shows "(\<Sum>x\<leftarrow>xs. f x) = (\<Sum>x\<leftarrow>ys. f x)"
proof -
  have "(\<Sum>x\<leftarrow>xs. f x) = sum_mset (image_mset f (mset xs))"
    by (simp add: sum_mset_sum_list [symmetric])
  also have "\<dots> = sum_mset (image_mset f (mset ys))"
    by (simp only: assms)
  also have "\<dots> = (\<Sum>x\<leftarrow>ys. f x)"
    by (simp add: sum_mset_sum_list [symmetric])
  finally show ?thesis .
qed

lemma block_phis_perm:
  assumes "mset Vpot' = mset Vpot"
  shows "block_phis Vpot' l = block_phis Vpot l"
  by (simp add: block_phis_eq sum_list_perm [OF assms])

lemma block_nl_energy_perm:
  assumes "mset Vpot' = mset Vpot"
  shows "block_nl_energy Vpot' l = block_nl_energy Vpot l"
  by (simp add: block_nl_energy_def block_phis_perm [OF assms])

lemma vpot_ok_perm:
  assumes "mset Vpot' = mset Vpot"
  shows "vpot_ok n Vpot' = vpot_ok n Vpot"
  using mset_eq_setD [OF assms] by (simp add: vpot_ok_def list_all_iff)


lemma outer_body_frame:
  "outer_body Vpot k (s\<lparr>st_D := X, st_tD := Y\<rparr>) =
     (case outer_body Vpot k s of Inl e \<Rightarrow> Inl e | Inr s' \<Rightarrow> Inr (s'\<lparr>st_D := X, st_tD := Y\<rparr>))"
  by (simp add: outer_body_eq split: sum.split)

lemma for_loop_frame:
  "for_loop (outer_body Vpot) ks (s\<lparr>st_D := X, st_tD := Y\<rparr>) =
     (case for_loop (outer_body Vpot) ks s of
        Inl e \<Rightarrow> Inl e
      | Inr s' \<Rightarrow> Inr (s'\<lparr>st_D := X, st_tD := Y\<rparr>))"
proof (induction ks arbitrary: s)
  case Nil
  show ?case by simp
next
  case (Cons k ks)
  show ?case
  proof (cases "outer_body Vpot k s")
    case (Inl e)
    then show ?thesis
      by (simp add: outer_body_frame)
  next
    case (Inr s')
    then show ?thesis
      by (simp add: outer_body_frame Cons.IH)
  qed
qed

lemma compute_vv10_shape_only:
  assumes "length D' = length D"
  shows "compute_vv10 D' Vpot = compute_vv10 D Vpot"
proof -
  have "init_state D' = (init_state D)\<lparr>st_D := D', st_tD := mmap (\<lambda>v. 2.0 * v) D'\<rparr>"
    using assms by (simp add: init_state_def Let_def)
  then have "for_loop (outer_body Vpot) [0..<length Vpot] (init_state D') =
     (case for_loop (outer_body Vpot) [0..<length Vpot] (init_state D) of
        Inl e \<Rightarrow> Inl e
      | Inr s' \<Rightarrow> Inr (s'\<lparr>st_D := D', st_tD := mmap (\<lambda>v. 2.0 * v) D'\<rparr>))"
    by (simp only: for_loop_frame)
  then show ?thesis
    by (simp add: compute_vv10_def run_vv10_def Let_def split: sum.split)
qed


section \<open>Magnitudes and the range of binary64\<close>










lemma fp_of_0 [simp]: "fp_of 0 = Fin 0"
  by (simp add: fp_of_def fp_huge_def fp_tiny_def)


section \<open>The kernel on values of moderate size\<close>

lemma coef_C_mag: "0 < coef_C" "mag 7 coef_C"
  by (simp_all add: coef_C_def mag_def)






section \<open>The sign of the kernel values\<close>

lemma fp_tiny_pos: "0 < fp_tiny" "fp_tiny < 1" "0 < fp_huge"
  by (simp_all add: fp_tiny_def fp_huge_def)

lemma fp_of_nonneg: "0 \<le> r \<Longrightarrow> fp_nonneg (fp_of r)"
  using fp_tiny_pos(3) by (auto simp: fp_of_def signed_inf_def)

lemma fp_of_above_tiny: "fp_tiny < r \<Longrightarrow> fp_above_tiny (fp_of r)"
  using fp_tiny_pos by (auto simp: fp_of_def signed_inf_def)

lemma fp_above_tiny_pos: "fp_above_tiny x \<Longrightarrow> fp_pos x"
  using fp_tiny_pos by (cases x) auto

lemma fp_div_nonneg:
  assumes "0 \<le> a" and "fp_above_tiny q"
  shows "fp_nonneg (fp_div (Fin a) q)"
proof (cases q)
  case (Fin s)
  then have "0 < s"
    using assms(2) fp_tiny_pos by simp
  then show ?thesis
    using Fin assms(1) by (simp add: fp_of_nonneg)
qed (use assms in simp_all)

lemma fp_square_nonneg: "fp_nonneg d \<Longrightarrow> fp_nonneg (fp_square d)"
  by (cases d) (simp_all add: fp_of_nonneg)

lemma fp_mul_nonneg:
  assumes "0 < c" and "fp_nonneg s"
  shows "fp_nonneg (fp_mul (Fin c) s)"
  using assms by (cases s) (simp_all add: fp_of_nonneg signed_inf_def)

lemma fp_add_above_tiny:
  assumes "fp_nonneg a" and "fp_above_tiny b"
  shows "fp_above_tiny (fp_add a b)"
proof (cases a)
  case (Fin x)
  show ?thesis
  proof (cases b)
    case (Fin y)
    then have "fp_tiny < x + y"
      using assms \<open>a = Fin x\<close> by simp
    then show ?thesis
      using Fin \<open>a = Fin x\<close> by (simp add: fp_of_above_tiny)
  qed (use assms \<open>a = Fin x\<close> in simp_all)
next
  case PInf
  then show ?thesis
    using assms by (cases b) simp_all
qed (use assms in simp_all)

lemma fp_sqrt_pos: "fp_above_tiny x \<Longrightarrow> fp_pos (fp_sqrt x)"
proof (cases x)
  case (Fin a)
  assume "fp_above_tiny x"
  then have "0 < a"
    using Fin fp_tiny_pos by simp
  then show ?thesis
    using Fin by simp
qed simp_all

lemma fp_mul_PInf_pos: "0 < c \<Longrightarrow> fp_mul PInf (Fin c) = PInf"
  by (simp add: signed_inf_def)

lemma kappa_pref_ge_1: "1 \<le> coef_B * (1.5 * pi) / ((9.0 * pi) powr (1.0 / 6.0))"
proof -
  have pi: "2 \<le> pi" "pi < 4"
    using pi_ge_two pi_less_4 by simp_all
  have "(9.0 * pi) powr (1.0 / 6.0) \<le> 64 powr (1.0 / 6.0)"
    using pi by (intro powr_mono2) simp_all
  also have "(64::real) powr (1.0 / 6.0) = (2 powr 6) powr (1.0 / 6.0)"
    by simp
  also have "\<dots> = 2"
    by (simp only: powr_powr) simp
  finally have den: "(9.0 * pi) powr (1.0 / 6.0) \<le> 2" .
  have dpos: "0 < (9.0 * pi) powr (1.0 / 6.0)"
    by simp
  have "2 \<le> coef_B * (1.5 * pi)"
    using pi by (simp add: coef_B_def)
  then have "(9.0 * pi) powr (1.0 / 6.0) \<le> coef_B * (1.5 * pi)"
    using den by linarith
  then show ?thesis
    using dpos by (simp only: le_divide_eq_1_pos)
qed

lemma above_tiny_of_square:
  assumes "0 < rho" and "fp_tiny < rho * rho"
  shows "fp_tiny < rho"
proof (cases "rho \<le> 1")
  case True
  then have "rho * rho \<le> rho"
    using assms(1) by (simp add: mult_left_le)
  with assms(2) show ?thesis
    by linarith
next
  case False
  then show ?thesis
    using fp_tiny_pos by linarith
qed

lemma compute_vv10_kernel_fp_pos:
  assumes rpos: "0 < rho" and r2: "fp_tiny < rho * rho" and g0: "0 \<le> gamma"
  shows "fp_pos (fst (compute_vv10_kernel_fp (Fin rho) (Fin gamma)))"
    and "fp_pos (snd (compute_vv10_kernel_fp (Fin rho) (Fin gamma)))"
proof -
  let ?pref = "coef_B * (1.5 * pi) / ((9.0 * pi) powr (1.0 / 6.0))"
  have r: "fp_tiny < rho"
    using rpos r2 by (rule above_tiny_of_square)
  have q: "fp_above_tiny (fp_mul (Fin rho) (Fin rho))"
    using r2 by (simp add: fp_of_above_tiny)
  have Wg: "fp_nonneg (fp_mul (Fin coef_C) (fp_square (fp_div (Fin gamma) (fp_mul (Fin rho) (Fin rho)))))"
    using coef_C_mag(1) by (intro fp_mul_nonneg fp_square_nonneg fp_div_nonneg g0 q)
  have "rho \<le> 4 / 3 * pi * rho"
    using rpos pi_ge_two by (simp add: field_simps)
  then have "fp_tiny < 4 / 3 * pi * rho"
    using r by linarith
  then have Wp: "fp_above_tiny (fp_mul (Fin (4 / 3 * pi)) (Fin rho))"
    by (simp add: fp_of_above_tiny)
  have W0: "fp_pos (fp_sqrt (fp_add
      (fp_mul (Fin coef_C) (fp_square (fp_div (Fin gamma) (fp_mul (Fin rho) (Fin rho)))))
      (fp_mul (Fin (4 / 3 * pi)) (Fin rho))))"
    by (intro fp_sqrt_pos fp_add_above_tiny Wg Wp)
  have t: "fp_tiny < rho powr (1 / 6)"
  proof (cases "rho \<le> 1")
    case True
    have "rho powr 1 \<le> rho powr (1 / 6)"
      using rpos True by (intro powr_mono') simp_all
    then show ?thesis
      using r rpos by simp
  next
    case False
    then have "1 \<le> rho powr (1 / 6)"
      by (simp add: ge_one_powr_ge_zero)
    then show ?thesis
      using fp_tiny_pos by linarith
  qed
  have kappa: "fp_pos (fp_mul (fp_powr (Fin rho) (1 / 6)) (Fin ?pref))"
  proof (cases "fp_huge \<le> rho powr (1 / 6)")
    case True
    then have "fp_powr (Fin rho) (1 / 6) = PInf"
      using rpos fp_tiny_pos by (simp add: fp_of_def signed_inf_def)
    moreover have "0 < ?pref"
      using kappa_pref_ge_1 by linarith
    ultimately show ?thesis
      by (simp only: fp_mul_PInf_pos fp_pos.simps)
  next
    case False
    then have "fp_powr (Fin rho) (1 / 6) = Fin (rho powr (1 / 6))"
      using rpos t by (simp add: fp_of_def)
    moreover have "0 \<le> rho powr (1 / 6)"
      by simp
    then have "rho powr (1 / 6) * 1 \<le> rho powr (1 / 6) * ?pref"
      using kappa_pref_ge_1 by (rule mult_left_mono [rotated])
    then have "rho powr (1 / 6) \<le> rho powr (1 / 6) * ?pref"
      by (simp only: mult_1_right)
    then have "fp_tiny < rho powr (1 / 6) * ?pref"
      using t by linarith
    then have "fp_above_tiny (fp_of (rho powr (1 / 6) * ?pref))"
      by (rule fp_of_above_tiny)
    ultimately show ?thesis
      by (simp add: fp_above_tiny_pos)
  qed
  have kernel: "compute_vv10_kernel_fp (Fin rho) (Fin gamma) =
      (fp_sqrt (fp_add
         (fp_mul (Fin coef_C) (fp_square (fp_div (Fin gamma) (fp_mul (Fin rho) (Fin rho)))))
         (fp_mul (Fin (4 / 3 * pi)) (Fin rho))),
       fp_mul (fp_powr (Fin rho) (1 / 6)) (Fin ?pref))"
    by (simp add: compute_vv10_kernel_fp_def Let_def
        del: fp_mul.simps fp_div.simps fp_add.simps fp_square.simps fp_sqrt.simps fp_powr.simps)
  show "fp_pos (fst (compute_vv10_kernel_fp (Fin rho) (Fin gamma)))"
    using W0 by (simp only: kernel fst_conv)
  show "fp_pos (snd (compute_vv10_kernel_fp (Fin rho) (Fin gamma)))"
    using kappa by (simp only: kernel snd_conv)
qed

section \<open>Sample inputs and values outside the moderate range\<close>

lemma sample_point_simps [simp]:
  "pt_w (sample_point wt xc rho gam v) = wt" "pt_x (sample_point wt xc rho gam v) = xc"
  "pt_y (sample_point wt xc rho gam v) = 0" "pt_z (sample_point wt xc rho gam v) = 0"
  "pt_RHO_A (sample_point wt xc rho gam v) = rho" "pt_GAMMA_AA (sample_point wt xc rho gam v) = gam"
  "pt_RHO_AX (sample_point wt xc rho gam v) = 1" "pt_RHO_AY (sample_point wt xc rho gam v) = 0"
  "pt_RHO_AZ (sample_point wt xc rho gam v) = 0"
  "pt_PHI (sample_point wt xc rho gam v) k = 1 + real k"
  "pt_PHI_X (sample_point wt xc rho gam v) k = 1"
  "pt_PHI_Y (sample_point wt xc rho gam v) k = 0" "pt_PHI_Z (sample_point wt xc rho gam v) k = 0"
  "pt_V (sample_point wt xc rho gam v) = v" "pt_V_RHO_A (sample_point wt xc rho gam v) = 1"
  "pt_V_GAMMA_AA (sample_point wt xc rho gam v) = 1"
  by (simp_all add: sample_point_def)

lemma sample_block_simps [simp]:
  "points sample_block_A = [sample_point 1 0 1 1 1, sample_point 2 1 2 0 1]"
  "functions_local_to_global sample_block_A = [0, 1]"
  "points sample_block_B = [sample_point 1 3 1 2 2]"
  "functions_local_to_global sample_block_B = [2, 1]"
  by (simp_all add: sample_block_A_def sample_block_B_def)

lemma fp_underflow_square: "fp_of (1 / 2 ^ 600 * (1 / 2 ^ 600)) = Fin 0"
  "fp_of (1 / 2 ^ 700 * (1 / 2 ^ 700)) = Fin 0"
  "fp_of (1 / 2 ^ 800 * (1 / 2 ^ 800)) = Fin 0"
  by (simp_all add: fp_of_def fp_huge_def fp_tiny_def)

lemma fp_NaN_right [simp]: "fp_mul x NaN = NaN" "fp_add x NaN = NaN" "fp_div x NaN = NaN"
  by (cases x; simp)+

lemma kernel_W0_nan:
  assumes "fp_of (rho * rho) = Fin 0"
  shows "fst (compute_vv10_kernel_fp (Fin rho) (Fin 0)) = NaN"
  by (simp add: compute_vv10_kernel_fp_def Let_def assms signed_inf_def)


section \<open>The pair entries of a point with itself\<close>





section \<open>The denominators of the pair kernel on regular grid points\<close>





section \<open>The update of the potential matrix by one block\<close>





section \<open>The sample grid\<close>

lemma sample_mag [simp]: "mag 50 1" "mag 50 2" "mag 50 3"
  by (simp_all add: mag_def)

lemma sample_point_regular:
  assumes "moderate rho" and "0 \<le> gam" and "limited gam" and "limited wt" and "limited xc"
    and "limited v"
  shows "regular_point (Suc (Suc 0)) (sample_point wt xc rho gam v)"
  using assms by (simp add: regular_point_def regular_grid_point_def limited_def)

lemma sample_vpot_facts:
  "vpot_ok (length sample_D) [sample_block_A, sample_block_B]"
  "regular_vpot [sample_block_A, sample_block_B]"
  "positive_densities [sample_block_A, sample_block_B]"
proof -
  show "vpot_ok (length sample_D) [sample_block_A, sample_block_B]"
    by (simp add: vpot_ok_def lpos_ok_def index_ok_def sample_D_def)
  show "regular_vpot [sample_block_A, sample_block_B]"
    by (simp add: regular_vpot_def regular_block_def sample_point_regular moderate_def
        limited_def)
  show "positive_densities [sample_block_A, sample_block_B]"
    by (simp add: positive_densities_def)
qed


section \<open>Properties of compute\_vv10 and its kernel\<close>

subsection \<open>The pair-kernel integrator\<close>



subsection \<open>The kernel formulas\<close>




subsection \<open>The derivative assembler\<close>



subsection \<open>The energy returned\<close>



subsection \<open>Symmetry of the potential matrix\<close>




subsection \<open>Positivity of the kernel values\<close>

text \<open>
  Claim C6, amended. At every point with \<open>rho > 0\<close> whose square \<open>rho * rho\<close> does not
  underflow to zero (it lies above \<open>2\<^sup>-\<^sup>1\<^sup>0\<^sup>7\<^sup>5\<close>), and any \<open>gamma \<ge> 0\<close>,
  \<open>compute_vv10_kernel(rho, gamma)\<close> returns \<open>W0 > 0\<close> and \<open>kappa > 0\<close>. The values are
  those computed with \<open>inf\<close>, \<open>nan\<close>, underflow and overflow; where the square of
  \<open>gamma / rho\<^sup>2\<close> overflows, the \<open>W0\<close> returned is \<open>inf\<close>, which is positive.
\<close>

theorem compute_vv10_kernel_positive:
  assumes "0 < rho" and "fp_tiny < rho * rho" and "0 \<le> gamma"
  shows "fp_pos (fst (compute_vv10_kernel_fp (Fin rho) (Fin gamma)))
       \<and> fp_pos (snd (compute_vv10_kernel_fp (Fin rho) (Fin gamma)))"
  using compute_vv10_kernel_fp_pos [OF assms] by (rule conjI)

theorem compute_vv10_kernel_positive_witness:
  "(0::real) < 1 / 2 ^ 500 \<and> fp_tiny < 1 / 2 ^ 500 * (1 / 2 ^ 500) \<and> (0::real) \<le> 1
   \<and> fp_pos (fst (compute_vv10_kernel_fp (Fin (1 / 2 ^ 500)) (Fin 1)))
   \<and> fp_pos (snd (compute_vv10_kernel_fp (Fin (1 / 2 ^ 500)) (Fin 1)))"
proof -
  have r: "(0::real) < 1 / 2 ^ 500" and g: "(0::real) \<le> 1"
    by simp_all
  have r2: "fp_tiny < 1 / 2 ^ 500 * (1 / 2 ^ 500)"
    by (simp add: fp_tiny_def)
  note t = compute_vv10_kernel_positive [OF r r2 g]
  show ?thesis
    by (intro conjI r r2 g t [THEN conjunct1] t [THEN conjunct2])
qed

text \<open>
  As stated, for every \<open>rho > 0\<close>, Claim C6 fails where the square \<open>rho * rho\<close> underflows: at
  \<open>rho = 2\<^sup>-\<^sup>7\<^sup>0\<^sup>0\<close> and \<open>gamma = 0\<close> the \<open>W0\<close> returned is \<open>nan\<close>, and \<open>nan > 0\<close> is false.
\<close>

theorem compute_vv10_kernel_positive_fails:
  "(0::real) < 1 / 2 ^ 700 \<and> (0::real) \<le> 0
   \<and> fst (compute_vv10_kernel_fp (Fin (1 / 2 ^ 700)) (Fin 0)) = NaN
   \<and> \<not> fp_pos (fst (compute_vv10_kernel_fp (Fin (1 / 2 ^ 700)) (Fin 0)))"
  using kernel_W0_nan [OF fp_underflow_square(2)] by simp

subsection \<open>A single block of a single point\<close>




subsection \<open>Order of the blocks\<close>

text \<open>
  Claim C8. For every set of grid blocks with all densities positive the total non-local
  energy of the double loop is the same, in exact arithmetic, for every order in which
  the blocks are enumerated by the outer and the inner loop: \<open>Vpot'\<close> is any permutation
  of the blocks of \<open>Vpot\<close>. The statement is for the inputs on which the call returns
  (every local-to-global map non-empty with valid indices), and the call returns for
  both orders.
\<close>

theorem nl_energy_order_invariant:
  assumes "vpot_ok (length D) Vpot" and "positive_densities Vpot"
    and "mset Vpot' = mset Vpot"
  shows "\<exists>s s'. run_vv10 D Vpot = Inr s \<and> run_vv10 D Vpot' = Inr s'
           \<and> st_vv10_e s' = st_vv10_e s \<and> st_xc_e s' = st_xc_e s"
proof -
  have ok': "vpot_ok (length D) Vpot'"
    using assms(1) by (simp only: vpot_ok_perm [OF assms(3)])
  obtain M where run: "run_vv10 D Vpot =
            Inr \<lparr>st_D = D, st_tD = mmap (\<lambda>v. 2.0 * v) D, st_Varr = M, st_total_e = 0,
                 st_xc_e = (\<Sum>b\<leftarrow>Vpot. block_xc_energy b) + (\<Sum>b\<leftarrow>Vpot. block_nl_energy Vpot b),
                 st_vv10_e = (\<Sum>b\<leftarrow>Vpot. block_nl_energy Vpot b),
                 st_stdout = [\<Sum>b\<leftarrow>Vpot. block_nl_energy Vpot b]\<rparr>"
    using run_vv10_returns [OF assms(1)] by blast
  obtain M' where run': "run_vv10 D Vpot' =
            Inr \<lparr>st_D = D, st_tD = mmap (\<lambda>v. 2.0 * v) D, st_Varr = M', st_total_e = 0,
                 st_xc_e = (\<Sum>b\<leftarrow>Vpot'. block_xc_energy b) + (\<Sum>b\<leftarrow>Vpot'. block_nl_energy Vpot' b),
                 st_vv10_e = (\<Sum>b\<leftarrow>Vpot'. block_nl_energy Vpot' b),
                 st_stdout = [\<Sum>b\<leftarrow>Vpot'. block_nl_energy Vpot' b]\<rparr>"
    using run_vv10_returns [OF ok'] by blast
  have "(\<Sum>b\<leftarrow>Vpot'. block_nl_energy Vpot' b) = (\<Sum>b\<leftarrow>Vpot'. block_nl_energy Vpot b)"
    by (simp add: block_nl_energy_perm [OF assms(3)])
  also have "\<dots> = (\<Sum>b\<leftarrow>Vpot. block_nl_energy Vpot b)"
    using assms(3) by (rule sum_list_perm)
  finally have nl: "(\<Sum>b\<leftarrow>Vpot'. block_nl_energy Vpot' b) = (\<Sum>b\<leftarrow>Vpot. block_nl_energy Vpot b)" .
  have xc: "(\<Sum>b\<leftarrow>Vpot'. block_xc_energy b) = (\<Sum>b\<leftarrow>Vpot. block_xc_energy b)"
    using assms(3) by (rule sum_list_perm)
  have "st_vv10_e \<lparr>st_D = D, st_tD = mmap (\<lambda>v. 2.0 * v) D, st_Varr = M', st_total_e = 0,
                 st_xc_e = (\<Sum>b\<leftarrow>Vpot'. block_xc_energy b) + (\<Sum>b\<leftarrow>Vpot'. block_nl_energy Vpot' b),
                 st_vv10_e = (\<Sum>b\<leftarrow>Vpot'. block_nl_energy Vpot' b),
                 st_stdout = [\<Sum>b\<leftarrow>Vpot'. block_nl_energy Vpot' b]\<rparr>
      = st_vv10_e \<lparr>st_D = D, st_tD = mmap (\<lambda>v. 2.0 * v) D, st_Varr = M, st_total_e = 0,
                 st_xc_e = (\<Sum>b\<leftarrow>Vpot. block_xc_energy b) + (\<Sum>b\<leftarrow>Vpot. block_nl_energy Vpot b),
                 st_vv10_e = (\<Sum>b\<leftarrow>Vpot. block_nl_energy Vpot b),
                 st_stdout = [\<Sum>b\<leftarrow>Vpot. block_nl_energy Vpot b]\<rparr>"
    by (simp only: state.simps nl)
  moreover have "st_xc_e \<lparr>st_D = D, st_tD = mmap (\<lambda>v. 2.0 * v) D, st_Varr = M', st_total_e = 0,
                 st_xc_e = (\<Sum>b\<leftarrow>Vpot'. block_xc_energy b) + (\<Sum>b\<leftarrow>Vpot'. block_nl_energy Vpot' b),
                 st_vv10_e = (\<Sum>b\<leftarrow>Vpot'. block_nl_energy Vpot' b),
                 st_stdout = [\<Sum>b\<leftarrow>Vpot'. block_nl_energy Vpot' b]\<rparr>
      = st_xc_e \<lparr>st_D = D, st_tD = mmap (\<lambda>v. 2.0 * v) D, st_Varr = M, st_total_e = 0,
                 st_xc_e = (\<Sum>b\<leftarrow>Vpot. block_xc_energy b) + (\<Sum>b\<leftarrow>Vpot. block_nl_energy Vpot b),
                 st_vv10_e = (\<Sum>b\<leftarrow>Vpot. block_nl_energy Vpot b),
                 st_stdout = [\<Sum>b\<leftarrow>Vpot. block_nl_energy Vpot b]\<rparr>"
    by (simp only: state.simps nl xc)
  ultimately show ?thesis
    using run run' by blast
qed

theorem nl_energy_order_invariant_witness:
  "vpot_ok (length sample_D) [sample_block_A, sample_block_B]
   \<and> positive_densities [sample_block_A, sample_block_B]
   \<and> mset [sample_block_B, sample_block_A] = mset [sample_block_A, sample_block_B]
   \<and> (\<exists>s s'. run_vv10 sample_D [sample_block_A, sample_block_B] = Inr s
          \<and> run_vv10 sample_D [sample_block_B, sample_block_A] = Inr s'
          \<and> st_vv10_e s' = st_vv10_e s \<and> st_xc_e s' = st_xc_e s)"
proof -
  note ok = sample_vpot_facts(1) and pos = sample_vpot_facts(3)
  have p: "mset [sample_block_B, sample_block_A] = mset [sample_block_A, sample_block_B]"
    by simp
  note c = nl_energy_order_invariant [OF ok pos p]
  show ?thesis
    by (intro conjI ok pos p c)
qed

subsection \<open>Zero density\<close>

text \<open>
  Claim C9. When \<open>rho = 0\<close> at a point, \<open>compute_vv10_kernel\<close> does not raise: the
  division \<open>gamma / rho\<^sup>2\<close> gives \<open>inf\<close>, \<open>-inf\<close> or \<open>nan\<close>, which propagates into the \<open>W0\<close>
  returned, and the function returns for every input, \<open>rho = 0\<close> included. At \<open>rho = 0\<close>
  the \<open>W0\<close> returned is \<open>nan\<close> when \<open>gamma\<close> is zero or \<open>nan\<close> and \<open>inf\<close> otherwise, and the
  \<open>kappa\<close> returned is 0. Downstream, every entry of \<open>g\<close> for such an outer point is
  \<open>nan\<close> or \<open>inf\<close>, whatever the squared distance \<open>dx\<^sup>2 + dy\<^sup>2 + dz\<^sup>2\<close>.
\<close>

theorem compute_vv10_kernel_zero_density:
  "compute_vv10_kernel_fp (Fin 0) gamma =
     (if gamma = Fin 0 \<or> gamma = NaN then NaN else PInf, Fin 0)
   \<and> g_entry_fp (fst (compute_vv10_kernel_fp (Fin 0) gamma))
         (snd (compute_vv10_kernel_fp (Fin 0) gamma)) (Fin (dx ^ 2 + dy ^ 2 + dz ^ 2)) =
       (if gamma = Fin 0 \<or> gamma = NaN \<or> dx ^ 2 + dy ^ 2 + dz ^ 2 = 0 then NaN else PInf)"
proof -
  have k: "compute_vv10_kernel_fp (Fin 0) gamma =
     (if gamma = Fin 0 \<or> gamma = NaN then NaN else PInf, Fin 0)"
  proof (cases gamma)
    case (Fin g)
    then show ?thesis
      by (cases "g = 0"; cases "0 < g")
        (simp_all add: compute_vv10_kernel_fp_def Let_def signed_inf_def coef_C_def)
  next
    case PInf
    then show ?thesis
      by (simp add: compute_vv10_kernel_fp_def Let_def signed_inf_def coef_C_def)
  next
    case NInf
    then show ?thesis
      by (simp add: compute_vv10_kernel_fp_def Let_def signed_inf_def coef_C_def)
  next
    case NaN
    then show ?thesis
      by (simp add: compute_vv10_kernel_fp_def Let_def)
  qed
  have g: "g_entry_fp (if gamma = Fin 0 \<or> gamma = NaN then NaN else PInf) (Fin 0) (Fin r) =
       (if gamma = Fin 0 \<or> gamma = NaN \<or> r = 0 then NaN else PInf)" if "0 \<le> r" for r
    using that by (auto simp: g_entry_fp_def signed_inf_def)
  have "0 \<le> dx ^ 2 + dy ^ 2 + dz ^ 2"
    by simp
  then have "g_entry_fp (if gamma = Fin 0 \<or> gamma = NaN then NaN else PInf) (Fin 0)
          (Fin (dx ^ 2 + dy ^ 2 + dz ^ 2)) =
       (if gamma = Fin 0 \<or> gamma = NaN \<or> dx ^ 2 + dy ^ 2 + dz ^ 2 = 0 then NaN else PInf)"
    by (rule g)
  with k show ?thesis
    by (simp only: fst_conv snd_conv simp_thms)
qed

subsection \<open>The density matrix argument\<close>

text \<open>
  Claim C10. \<open>compute_vv10\<close> does not change its argument \<open>D\<close>: it reads the shape of
  \<open>D\<close> and makes the scaled copy \<open>tD = 2 D\<close>, which is not written back, so after every
  call that returns \<open>D\<close> is what it was. The energy and the matrix returned are built
  from variables that the call itself initialises (\<open>Varr\<close> from zeros, the energies from
  0), and they depend on \<open>D\<close> through its shape only. The statement is for the inputs on
  which the call returns: every local-to-global map is non-empty and holds valid
  indices (otherwise the indexed update raises \<open>IndexError\<close>, lemma \<open>run_vv10_raises\<close>).
\<close>

theorem density_matrix_unchanged:
  assumes "vpot_ok (length D) Vpot" and "length D' = length D"
  shows "(\<exists>s. run_vv10 D Vpot = Inr s \<and> st_D s = D \<and> st_tD s = mmap (\<lambda>v. 2 * v) D)
       \<and> st_Varr (init_state D) = zeros (length D) (length D)
       \<and> st_xc_e (init_state D) = 0 \<and> st_vv10_e (init_state D) = 0
       \<and> compute_vv10 D' Vpot = compute_vv10 D Vpot"
proof -
  obtain M where "run_vv10 D Vpot =
            Inr \<lparr>st_D = D, st_tD = mmap (\<lambda>v. 2.0 * v) D, st_Varr = M, st_total_e = 0,
                 st_xc_e = (\<Sum>b\<leftarrow>Vpot. block_xc_energy b) + (\<Sum>b\<leftarrow>Vpot. block_nl_energy Vpot b),
                 st_vv10_e = (\<Sum>b\<leftarrow>Vpot. block_nl_energy Vpot b),
                 st_stdout = [\<Sum>b\<leftarrow>Vpot. block_nl_energy Vpot b]\<rparr>"
    using run_vv10_returns [OF assms(1)] by blast
  then have "\<exists>s. run_vv10 D Vpot = Inr s \<and> st_D s = D \<and> st_tD s = mmap (\<lambda>v. 2 * v) D"
    by simp
  moreover have "st_Varr (init_state D) = zeros (length D) (length D)"
    "st_xc_e (init_state D) = 0" "st_vv10_e (init_state D) = 0"
    by (simp_all add: init_state_def Let_def)
  moreover note compute_vv10_shape_only [OF assms(2), of Vpot]
  ultimately show ?thesis
    by blast
qed

theorem density_matrix_unchanged_witness:
  "vpot_ok (length sample_D) [sample_block_A, sample_block_B]
   \<and> length [[7::real, 8, 9], [1, 2, 3], [4, 5, 6]] = length sample_D
   \<and> (\<exists>s. run_vv10 sample_D [sample_block_A, sample_block_B] = Inr s \<and> st_D s = sample_D
          \<and> st_tD s = mmap (\<lambda>v. 2 * v) sample_D)
   \<and> compute_vv10 [[7, 8, 9], [1, 2, 3], [4, 5, 6]] [sample_block_A, sample_block_B]
       = compute_vv10 sample_D [sample_block_A, sample_block_B]"
proof -
  note ok = sample_vpot_facts(1)
  have l: "length [[7::real, 8, 9], [1, 2, 3], [4, 5, 6]] = length sample_D"
    by (simp add: sample_D_def)
  note t = density_matrix_unchanged [OF ok l]
  show ?thesis
    by (intro conjI ok l t [THEN conjunct1]
        t [THEN conjunct2, THEN conjunct2, THEN conjunct2, THEN conjunct2])
qed

end
